theory Spec2Isabelle
  imports Complex_Main
begin

section \<open>OctoPrintSocketService: the socket synchroniser of OctoDash\<close>

text \<open>
  A shallow embedding of \<^verbatim>\<open>src/app/services/socket/socket.octoprint.service.ts\<close>.
  The service is a single-threaded object: every callback (a socket message, the answer
  to a credential request, a call of a public method) runs to completion before the next
  one starts. Each callback is therefore one function from the service state to the new
  service state, and a run of the service is a list of such actions.

  JavaScript values are modelled as follows.
  \<^item> A property that may be missing is a \<open>'a js\<close>: \<open>Undefined\<close>, \<open>Null\<close> or a value.
  \<^item> A JavaScript number is a real; results of conversions that can be \<^verbatim>\<open>NaN\<close> are a
    \<open>number\<close> (\<open>NaN\<close> or a real).
  \<^item> A string is a \<open>string\<close> (a list of bytes).
  \<^item> A record that is published on a subject is stored by value: the model keeps what a
    subscriber reads in its callback at the moment of publication. (The source publishes
    a reference to the record it keeps mutating; see the subjects below.)
\<close>

subsection \<open>JavaScript values\<close>

datatype 'a js = Undefined | Null | Val 'a

datatype number = NaN | Number real

text \<open>Optional chaining \<^verbatim>\<open>a?.b\<close>: a nullish receiver makes the whole chain undefined.\<close>

fun chain :: "'a js \<Rightarrow> ('a \<Rightarrow> 'b js) \<Rightarrow> 'b js" where
  "chain Undefined f = Undefined"
| "chain Null f = Undefined"
| "chain (Val x) f = f x"

text \<open>
  \<^verbatim>\<open>Math.round\<close> after \<^verbatim>\<open>ToNumber\<close>: \<^verbatim>\<open>undefined\<close> gives \<^verbatim>\<open>NaN\<close>, \<^verbatim>\<open>null\<close> gives 0, a
  number is rounded to the nearest integer, halves upwards.
\<close>

fun Math_round :: "real js \<Rightarrow> number" where
  "Math_round Undefined = NaN"
| "Math_round Null = Number 0"
| "Math_round (Val x) = Number (of_int \<lfloor>x + 1 / 2\<rfloor>)"

text \<open>Truthiness of a possibly missing number and of a possibly missing object.\<close>

fun truthy_num :: "real js \<Rightarrow> bool" where
  "truthy_num (Val x) = (x \<noteq> 0)"
| "truthy_num _ = False"

fun truthy_obj :: "'a js \<Rightarrow> bool" where
  "truthy_obj (Val x) = True"
| "truthy_obj _ = False"

text \<open>String concatenation \<^verbatim>\<open>'/' + x\<close> with a possibly missing string.\<close>

fun to_string :: "string js \<Rightarrow> string" where
  "to_string Undefined = ''undefined''"
| "to_string Null = ''null''"
| "to_string (Val s) = s"

text \<open>\<^verbatim>\<open>String.prototype.toLowerCase\<close> on the ASCII letters.\<close>

definition lower_char :: "char \<Rightarrow> char" where
  "lower_char c =
     (case map_of (zip ''ABCDEFGHIJKLMNOPQRSTUVWXYZ'' ''abcdefghijklmnopqrstuvwxyz'') c of
        Some l \<Rightarrow> l
      | None \<Rightarrow> c)"

definition toLowerCase :: "string \<Rightarrow> string" where
  "toLowerCase s = map lower_char s"

text \<open>\<^verbatim>\<open>s.replace(pat, rep)\<close> with a string pattern: the first occurrence only.\<close>

fun replace :: "string \<Rightarrow> string \<Rightarrow> string \<Rightarrow> string" where
  "replace pat rep [] = (if pat = [] then rep else [])"
| "replace pat rep (c # cs) =
     (if take (length pat) (c # cs) = pat then rep @ drop (length pat) (c # cs)
      else c # replace pat rep cs)"

text \<open>\<^verbatim>\<open>s.trim()\<close> on the ASCII white space.\<close>

definition is_space :: "char \<Rightarrow> bool" where
  "is_space c = (c \<in> set [CHR '' '', CHR 0x09, CHR 0x0A, CHR 0x0B, CHR 0x0C, CHR 0x0D])"

definition trim :: "string \<Rightarrow> string" where
  "trim s = rev (dropWhile is_space (rev (dropWhile is_space s)))"

subsection \<open>The data model\<close>

text \<open>
  The enumeration \<^verbatim>\<open>PrinterEvent\<close> is declared in \<^verbatim>\<open>src/app/model\<close>; its members are
  the six the service names.
\<close>

datatype PrinterEvent = UNKNOWN | CONNECTED | PRINTING | PAUSED | IDLE | CLOSED

text \<open>A temperature \<^verbatim>\<open>{current, set, unit}\<close>.\<close>

record Temperature =
  current_t :: number
  set_t :: number
  unit_t :: string

text \<open>
  \<^verbatim>\<open>PrinterStatus\<close>. The field \<open>status\<close> holds what the index expression
  \<^verbatim>\<open>PrinterState[key]\<close> returned: \<open>None\<close> is \<^verbatim>\<open>undefined\<close>, \<open>Some v\<close> a value \<open>v\<close>
  of the enumeration object.
\<close>

record 'v PrinterStatus =
  status :: "'v option"
  bed :: Temperature
  tool0 :: Temperature
  fanSpeed :: number

record Duration =
  value_d :: string
  unit_d :: "string js"

text \<open>\<^verbatim>\<open>zHeight\<close> is a plain number or a pair \<^verbatim>\<open>{current, total}\<close>.\<close>

datatype ZHeight = ZNumber real | ZLayers number number

record JobStatus =
  file_j :: "string js"
  fullPath :: "string js"
  progress :: number
  zHeight :: ZHeight
  filamentAmount :: real
  timePrinted :: "Duration js"
  timeLeft :: Duration
  estimatedPrintTime :: "Duration js"
  estimatedEndTime :: "string js"

record SocketAuth =
  user :: string
  session :: string

subsection \<open>Wire frames\<close>

text \<open>
  A frame is given at the TypeScript types the handlers declare for it
  (\<^verbatim>\<open>OctoprintSocketCurrent\<close>, \<^verbatim>\<open>OctoprintSocketEvent\<close>, \<^verbatim>\<open>OctoprintPluginMessage\<close>):
  the objects the handlers dereference without a guard (\<^verbatim>\<open>current.temps\<close>,
  \<^verbatim>\<open>current.state.text\<close>, \<^verbatim>\<open>current.job\<close>, \<^verbatim>\<open>current.progress\<close>) are there, every
  leaf the handlers test or reach through \<^verbatim>\<open>?.\<close> may be missing.
\<close>

record Reading =
  actual :: "real js"
  target :: "real js"

record TempSample =
  bed_s :: "Reading js"
  tool0_s :: "Reading js"

record OctoprintFile =
  display :: "string js"
  origin :: "string js"
  path :: "string js"

text \<open>\<^verbatim>\<open>OctoprintFilament\<close>: one entry per tool, of which the length is read.\<close>

record ToolFilament =
  length_f :: real

record OctoprintSocketCurrent =
  temps :: "TempSample list"
  state_text :: string
  job_file :: "OctoprintFile js"
  job_filament :: "ToolFilament list js"
  job_estimatedPrintTime :: "real js"
  progress_completion :: "real js"
  progress_printTime :: "real js"
  progress_printTimeLeft :: "real js"
  currentZ :: "real js"

record DisplayLayerProgressData =
  fanspeed :: string
  currentLayer :: string
  totalLayer :: string

record OctoprintPluginMessage =
  plugin_plugin :: string
  plugin_data :: DisplayLayerProgressData

text \<open>
  A raw message: the dispatcher looks for the own properties \<^verbatim>\<open>current\<close>, \<^verbatim>\<open>event\<close>,
  \<^verbatim>\<open>plugin\<close>, \<^verbatim>\<open>reauth\<close> and \<^verbatim>\<open>connected\<close>, in this order. Of an event only the
  \<^verbatim>\<open>type\<close> is read.
\<close>

record Message =
  m_current :: "OctoprintSocketCurrent option"
  m_event :: "string option"
  m_plugin :: "OctoprintPluginMessage option"
  m_reauth :: bool
  m_connected :: bool

subsection \<open>Collaborators\<close>

text \<open>
  What the service calls but the sources do not contain is a parameter of the model:
  the configuration flag of \<^verbatim>\<open>ConfigService\<close>, the two conversions of
  \<^verbatim>\<open>ConversionService\<close>, JavaScript's \<^verbatim>\<open>Number(string)\<close>, and the enumeration object
  \<^verbatim>\<open>PrinterState\<close> (declared in \<^verbatim>\<open>src/app/model\<close>), given by its index operation:
  \<open>PrinterState env key\<close> is the value of \<^verbatim>\<open>PrinterState[key]\<close>, \<open>None\<close> when that is
  \<^verbatim>\<open>undefined\<close>. The member access \<^verbatim>\<open>PrinterState.printing\<close> is
  \<open>PrinterState env ''printing''\<close>.
\<close>

record 'v env =
  isDisplayLayerProgressEnabled :: bool
  convertSecondsToHours :: "real js \<Rightarrow> string"
  convertFilamentLengthToWeight :: "real \<Rightarrow> real"
  js_Number :: "string \<Rightarrow> number"
  PrinterState :: "string \<Rightarrow> 'v option"

subsection \<open>Subjects\<close>

text \<open>
  The three subjects are rxjs \<^verbatim>\<open>ReplaySubject\<close>s constructed without arguments, that
  is with an unbounded buffer and an unbounded time window: such a subject records
  every value passed to \<^verbatim>\<open>next\<close> and delivers the whole record, oldest first, to each
  new subscriber before any later value. \<open>buffer\<close> is that record; \<open>observers\<close>
  holds, for each subscriber in the order of subscription, the values delivered to it
  so far.
\<close>

record 'a ReplaySubject =
  buffer :: "'a list"
  observers :: "'a list list"

definition new_ReplaySubject :: "'a ReplaySubject" where
  "new_ReplaySubject = \<lparr>buffer = [], observers = []\<rparr>"

definition subject_next :: "'a \<Rightarrow> 'a ReplaySubject \<Rightarrow> 'a ReplaySubject" where
  "subject_next v r = \<lparr>buffer = buffer r @ [v], observers = map (\<lambda>d. d @ [v]) (observers r)\<rparr>"

definition subject_subscribe :: "'a ReplaySubject \<Rightarrow> 'a ReplaySubject" where
  "subject_subscribe r = r\<lparr>observers := observers r @ [buffer r]\<rparr>"

text \<open>
  The two record subjects carry references to the records the service keeps mutating.
  A value of their \<open>buffer\<close>, and a value in \<open>observers\<close>, is the content of the
  record at the time of its publication, which is what a subscriber reads in its
  callback when the value is published. What a subscriber is handed at the time it
  subscribes (the record of \<^verbatim>\<open>startWith\<close> and the replayed publications) it reads
  through those references, so it reads the content the records have by then; the model
  does not record these reads, and a new subscriber of a record subject starts with
  nothing recorded. The event subject carries values of the enumeration, which are
  replayed as they were published.
\<close>

definition subscribe_live :: "'a ReplaySubject \<Rightarrow> 'a ReplaySubject" where
  "subscribe_live r = r\<lparr>observers := observers r @ [[]]\<rparr>"

subsection \<open>The service object\<close>

text \<open>
  \<open>base\<close> holds the fields that exist once the constructor has run; \<open>service\<close> adds
  the three fields that \<^verbatim>\<open>connect()\<close> assigns first. Beside the fields of the source
  there are three records of effects: \<open>sent\<close>, the authentication payloads passed to
  the socket; \<open>scheduled\<close>, the delays in milliseconds of the retry timers set so
  far; \<open>resolved\<close>, how often the \<^verbatim>\<open>resolve\<close> of a \<^verbatim>\<open>connect()\<close> promise was called.
  \<open>socket\<close> tells whether the socket exists, \<open>handlers\<close> how many subscriptions
  \<^verbatim>\<open>setupSocket\<close> has put on it. The counter \<open>fastInterval\<close> is a natural number.

  The handlers of frames are functions on a \<open>service\<close>: frames arrive only through a
  subscription of \<^verbatim>\<open>setupSocket\<close>, which is made after \<^verbatim>\<open>connect()\<close> has assigned the
  three fields.
\<close>

record 'v base =
  fastInterval :: nat
  socket :: bool
  handlers :: nat
  sent :: "string list"
  scheduled :: "nat list"
  resolved :: nat
  printerStatusSubject :: "'v PrinterStatus ReplaySubject"
  jobStatusSubject :: "JobStatus ReplaySubject"
  eventSubject :: "PrinterEvent ReplaySubject"

record 'v service = "'v base" +
  printerStatus :: "'v PrinterStatus"
  jobStatus :: JobStatus
  lastState :: PrinterEvent

definition constructor :: "'v base" where
  "constructor =
     \<lparr>fastInterval = 0, socket = False, handlers = 0, sent = [], scheduled = [], resolved = 0,
      printerStatusSubject = new_ReplaySubject,
      jobStatusSubject = new_ReplaySubject,
      eventSubject = new_ReplaySubject\<rparr>"

text \<open>The unit string: a degree sign (two bytes in UTF-8) and a C.\<close>

definition degC :: string where
  "degC = [CHR 0xC2, CHR 0xB0, CHR ''C'']"

definition initPrinterStatus :: "'v env \<Rightarrow> 'v PrinterStatus" where
  "initPrinterStatus env =
     \<lparr>status = PrinterState env ''connecting'',
      bed = \<lparr>current_t = Number 0, set_t = Number 0, unit_t = degC\<rparr>,
      tool0 = \<lparr>current_t = Number 0, set_t = Number 0, unit_t = degC\<rparr>,
      fanSpeed = (if isDisplayLayerProgressEnabled env then Number 0 else Number (- 1))\<rparr>"

definition initJobStatus :: "'v env \<Rightarrow> JobStatus" where
  "initJobStatus env =
     \<lparr>file_j = Null,
      fullPath = Null,
      progress = Number 0,
      zHeight = (if isDisplayLayerProgressEnabled env then ZLayers (Number 0) (Number (- 1))
                 else ZNumber 0),
      filamentAmount = 0,
      timePrinted = Null,
      timeLeft = \<lparr>value_d = ''---'', unit_d = Null\<rparr>,
      estimatedPrintTime = Null,
      estimatedEndTime = Null\<rparr>"

text \<open>
  \<^verbatim>\<open>connect()\<close> assigns the two records and the last event and starts \<^verbatim>\<open>tryConnect\<close>,
  which sends a credential request; the answer is an action of its own.
\<close>

definition connect :: "'v env \<Rightarrow> ('v, 'z) base_scheme \<Rightarrow> 'v service" where
  "connect env s =
     \<lparr>fastInterval = fastInterval s, socket = socket s, handlers = handlers s, sent = sent s,
      scheduled = scheduled s, resolved = resolved s,
      printerStatusSubject = printerStatusSubject s,
      jobStatusSubject = jobStatusSubject s,
      eventSubject = eventSubject s,
      printerStatus = initPrinterStatus env,
      jobStatus = initJobStatus env,
      lastState = UNKNOWN\<rparr>"

definition connectSocket :: "'v service \<Rightarrow> 'v service" where
  "connectSocket s = (if \<not> socket s then s\<lparr>socket := True\<rparr> else s)"

definition setupSocket :: "'v service \<Rightarrow> 'v service" where
  "setupSocket s = s\<lparr>handlers := handlers s + 1\<rparr>"

definition authenticateSocket :: "SocketAuth \<Rightarrow> 'v service \<Rightarrow> 'v service" where
  "authenticateSocket socketAuth s = s\<lparr>sent := sent s @ [user socketAuth @ '':'' @ session socketAuth]\<rparr>"

text \<open>The two callbacks of \<^verbatim>\<open>tryConnect\<close>: the credentials arrive, or the request fails.\<close>

definition tryConnect_next :: "SocketAuth \<Rightarrow> 'v service \<Rightarrow> 'v service" where
  "tryConnect_next socketAuth s = authenticateSocket socketAuth (setupSocket (connectSocket s))"

definition tryConnect_error :: "'v service \<Rightarrow> 'v service" where
  "tryConnect_error s =
     s\<lparr>scheduled := scheduled s @ [if fastInterval s < 6 then 5000 else 15000],
       fastInterval := fastInterval s + 1\<rparr>"

subsection \<open>Events\<close>

text \<open>The \<^verbatim>\<open>switch\<close> of \<^verbatim>\<open>extractPrinterEvent\<close>; \<open>None\<close> is the \<^verbatim>\<open>undefined\<close> of the default case.\<close>

definition newState :: "string \<Rightarrow> PrinterEvent option" where
  "newState ty =
     (if ty = ''PrintStarted'' \<or> ty = ''PrintResumed'' then Some PRINTING
      else if ty = ''PrintPaused'' then Some PAUSED
      else if ty = ''PrintFailed'' \<or> ty = ''PrintDone'' \<or> ty = ''PrintCancelled'' then Some IDLE
      else if ty = ''Connected'' then Some CONNECTED
      else if ty = ''Disconnected'' then Some CLOSED
      else if ty = ''Error'' then Some CLOSED
      else None)"

definition extractPrinterEvent :: "string \<Rightarrow> 'v service \<Rightarrow> 'v service" where
  "extractPrinterEvent ty s =
     (case newState ty of
        None \<Rightarrow> s
      | Some e \<Rightarrow> s\<lparr>lastState := e, eventSubject := subject_next e (eventSubject s)\<rparr>)"

subsection \<open>Printer status\<close>

definition extractPrinterStatus :: "'v env \<Rightarrow> OctoprintSocketCurrent \<Rightarrow> 'v service \<Rightarrow> 'v service" where
  "extractPrinterStatus env m s =
     (let ps1 = (case temps m of
                   [] \<Rightarrow> printerStatus s
                 | t # _ \<Rightarrow> (printerStatus s)
                     \<lparr>bed := \<lparr>current_t = Math_round (chain (bed_s t) actual),
                              set_t = Math_round (chain (bed_s t) target),
                              unit_t = degC\<rparr>,
                      tool0 := \<lparr>current_t = Math_round (chain (tool0_s t) actual),
                                set_t = Math_round (chain (tool0_s t) target),
                                unit_t = degC\<rparr>\<rparr>);
          ps2 = ps1\<lparr>status := PrinterState env (toLowerCase (state_text m))\<rparr>;
          s1 = s\<lparr>printerStatus := ps2\<rparr>;
          s2 = (if status ps2 = PrinterState env ''printing'' \<and> lastState s1 = UNKNOWN
                then extractPrinterEvent ''PrintStarted'' s1
                else if status ps2 = PrinterState env ''paused'' \<and> lastState s1 = UNKNOWN
                then extractPrinterEvent ''PrintPaused'' s1
                else s1)
      in s2\<lparr>printerStatusSubject := subject_next (printerStatus s2) (printerStatusSubject s2)\<rparr>)"

definition extractFanSpeed :: "'v env \<Rightarrow> DisplayLayerProgressData \<Rightarrow> 'v service \<Rightarrow> 'v service" where
  "extractFanSpeed env message s =
     s\<lparr>printerStatus := (printerStatus s)
         \<lparr>fanSpeed :=
            (if fanspeed message = ''Off'' then Number 0
             else if fanspeed message = ''-'' then Number 0
             else js_Number env (trim (replace ''%'' [] (fanspeed message))))\<rparr>\<rparr>"

subsection \<open>Job status\<close>

definition getTotalFilamentWeight :: "'v env \<Rightarrow> ToolFilament list \<Rightarrow> real" where
  "getTotalFilamentWeight env filament =
     convertFilamentLengthToWeight env
       (foldl (\<lambda>filamentLength tool. filamentLength + length_f tool) 0 filament)"

text \<open>
  \<^verbatim>\<open>calculateEndTime\<close> reads the clock. The clock is an argument: \<open>now\<close> is the local
  wall-clock time of \<^verbatim>\<open>new Date()\<close> in whole seconds, counted from the local midnight
  of some day (a date is such a count, and no change of the clock's offset lies between
  \<open>now\<close> and the end time). \<^verbatim>\<open>setSeconds\<close> truncates its argument to an integer,
  puts it in place of the seconds and carries into the minutes, hours and days.
\<close>

fun show_nat :: "nat \<Rightarrow> string" where
  "show_nat n =
     (if n < 10 then [''0123456789'' ! n] else show_nat (n div 10) @ [''0123456789'' ! (n mod 10)])"

declare show_nat.simps [simp del]

definition slice_last2 :: "string \<Rightarrow> string" where
  "slice_last2 s = drop (length s - 2) s"

definition truncate :: "real \<Rightarrow> int" where
  "truncate x = (if 0 \<le> x then \<lfloor>x\<rfloor> else \<lceil>x\<rceil>)"

definition getSeconds :: "int \<Rightarrow> int" where
  "getSeconds date = date mod 60"

definition setSeconds :: "int \<Rightarrow> real \<Rightarrow> int" where
  "setSeconds date sec = date - date mod 60 + truncate sec"

definition getHours :: "int \<Rightarrow> nat" where
  "getHours date = nat ((date div 3600) mod 24)"

definition getMinutes :: "int \<Rightarrow> nat" where
  "getMinutes date = nat ((date div 60) mod 60)"

definition calculateEndTime :: "int \<Rightarrow> real \<Rightarrow> string" where
  "calculateEndTime now printTimeLeft =
     (let date = setSeconds now (of_int (getSeconds now) + printTimeLeft)
      in slice_last2 (''0'' @ show_nat (getHours date)) @ '':'' @
         slice_last2 (''0'' @ show_nat (getMinutes date)))"

text \<open>The display name with the two extensions removed; undefined when there is none.\<close>

definition file_of :: "OctoprintSocketCurrent \<Rightarrow> string js" where
  "file_of m =
     chain (chain (job_file m) display)
       (\<lambda>d. Val (replace ''.ufp'' [] (replace ''.gcode'' [] d)))"

definition extractJobStatus ::
  "'v env \<Rightarrow> int \<Rightarrow> OctoprintSocketCurrent \<Rightarrow> 'v service \<Rightarrow> 'v service" where
  "extractJobStatus env now m s =
     (let j0 = (if file_j (jobStatus s) \<noteq> file_of m then initJobStatus env else jobStatus s);
          j1 = j0\<lparr>file_j := file_of m,
                  fullPath := Val (''/'' @ to_string (chain (job_file m) origin) @ ''/'' @
                                   to_string (chain (job_file m) path)),
                  progress := Math_round (progress_completion m),
                  timePrinted := Val \<lparr>value_d = convertSecondsToHours env (progress_printTime m),
                                       unit_d = Val ''h''\<rparr>\<rparr>;
          j2 = (case job_filament m of
                  Val filament \<Rightarrow> j1\<lparr>filamentAmount := getTotalFilamentWeight env filament\<rparr>
                | _ \<Rightarrow> j1);
          j3 = (case progress_printTimeLeft m of
                  Val r \<Rightarrow>
                    (if r \<noteq> 0
                     then j2\<lparr>timeLeft := \<lparr>value_d = convertSecondsToHours env (Val r),
                                           unit_d = Val ''h''\<rparr>,
                             estimatedEndTime := Val (calculateEndTime now r)\<rparr>
                     else j2)
                | _ \<Rightarrow> j2);
          j4 = (if truthy_num (job_estimatedPrintTime m)
                then j3\<lparr>estimatedPrintTime :=
                          Val \<lparr>value_d = convertSecondsToHours env (job_estimatedPrintTime m),
                               unit_d = Val ''h''\<rparr>\<rparr>
                else j3);
          j5 = (case currentZ m of
                  Val z \<Rightarrow> (if \<not> isDisplayLayerProgressEnabled env \<and> z \<noteq> 0
                            then j4\<lparr>zHeight := ZNumber z\<rparr> else j4)
                | _ \<Rightarrow> j4)
      in s\<lparr>jobStatus := j5, jobStatusSubject := subject_next j5 (jobStatusSubject s)\<rparr>)"

definition extractLayerHeight :: "'v env \<Rightarrow> DisplayLayerProgressData \<Rightarrow> 'v service \<Rightarrow> 'v service" where
  "extractLayerHeight env message s =
     s\<lparr>jobStatus := (jobStatus s)
         \<lparr>zHeight :=
            ZLayers (if currentLayer message = ''-'' then Number 0
                     else js_Number env (currentLayer message))
                    (if totalLayer message = ''-'' then Number 0
                     else js_Number env (totalLayer message))\<rparr>\<rparr>"

subsection \<open>The dispatcher and the other callbacks\<close>

text \<open>
  The handler that \<^verbatim>\<open>setupSocket\<close> subscribes: \<open>now\<close> is the clock at the time the
  message is handled. The \<^verbatim>\<open>reauth\<close> branch and \<^verbatim>\<open>checkPrinterConnection\<close> only send
  a request; the answers are the callbacks \<open>reauth_next\<close> and
  \<open>checkPrinterConnection_next\<close>.
\<close>

definition on_message :: "'v env \<Rightarrow> int \<Rightarrow> Message \<Rightarrow> 'v service \<Rightarrow> 'v service" where
  "on_message env now message s =
     (case m_current message of
        Some c \<Rightarrow> extractJobStatus env now c (extractPrinterStatus env c s)
      | None \<Rightarrow>
     (case m_event message of
        Some ty \<Rightarrow> extractPrinterEvent ty s
      | None \<Rightarrow>
     (case m_plugin message of
        Some pluginMessage \<Rightarrow>
          (if plugin_plugin pluginMessage = ''DisplayLayerProgress-websocket-payload'' \<and>
              isDisplayLayerProgressEnabled env
           then extractLayerHeight env (plugin_data pluginMessage)
                  (extractFanSpeed env (plugin_data pluginMessage) s)
           else s)
      | None \<Rightarrow>
          (if m_reauth message then s
           else if m_connected message then s\<lparr>resolved := resolved s + 1\<rparr>
           else s))))"

definition reauth_next :: "SocketAuth \<Rightarrow> 'v service \<Rightarrow> 'v service" where
  "reauth_next socketAuth s = authenticateSocket socketAuth s"

definition checkPrinterConnection_next :: "string \<Rightarrow> 'v service \<Rightarrow> 'v service" where
  "checkPrinterConnection_next state s =
     (if state = ''Closed'' \<or> state = ''Error''
      then s\<lparr>eventSubject := subject_next CLOSED (eventSubject s)\<rparr>
      else s)"

text \<open>
  Subscribing to the three subscribables. The first two are built with
  \<^verbatim>\<open>startWith\<close> on a record subject; the third is the event subject itself.
\<close>

definition subscribe_printerStatus :: "'v service \<Rightarrow> 'v service" where
  "subscribe_printerStatus s =
     s\<lparr>printerStatusSubject := subscribe_live (printerStatusSubject s)\<rparr>"

definition subscribe_jobStatus :: "'v service \<Rightarrow> 'v service" where
  "subscribe_jobStatus s =
     s\<lparr>jobStatusSubject := subscribe_live (jobStatusSubject s)\<rparr>"

definition getEventSubscribable :: "('v, 'z) base_scheme \<Rightarrow> PrinterEvent ReplaySubject" where
  "getEventSubscribable s = eventSubject s"

definition subscribe_event :: "('v, 'z) base_scheme \<Rightarrow> ('v, 'z) base_scheme" where
  "subscribe_event s = s\<lparr>eventSubject := subject_subscribe (getEventSubscribable s)\<rparr>"

subsection \<open>Runs\<close>

text \<open>
  One action is one callback. A message is handled once by every subscription
  \<^verbatim>\<open>setupSocket\<close> has made, none before the first credentials have arrived.
\<close>

datatype action =
    Connect
  | SessionKey_error
  | SessionKey_next SocketAuth
  | Socket_message int Message
  | Reauth_next SocketAuth
  | Connection_state string
  | Subscribe_printerStatus
  | Subscribe_jobStatus
  | Subscribe_event

fun step :: "'v env \<Rightarrow> action \<Rightarrow> 'v service \<Rightarrow> 'v service" where
  "step env Connect s = connect env s"
| "step env SessionKey_error s = tryConnect_error s"
| "step env (SessionKey_next a) s = tryConnect_next a s"
| "step env (Socket_message now m) s = ((on_message env now m) ^^ handlers s) s"
| "step env (Reauth_next a) s = reauth_next a s"
| "step env (Connection_state st) s = checkPrinterConnection_next st s"
| "step env Subscribe_printerStatus s = subscribe_printerStatus s"
| "step env Subscribe_jobStatus s = subscribe_jobStatus s"
| "step env Subscribe_event s = subscribe_event s"

fun run :: "'v env \<Rightarrow> action list \<Rightarrow> 'v service \<Rightarrow> 'v service" where
  "run env [] s = s"
| "run env (a # as) s = run env as (step env a s)"

subsection \<open>Auxiliary definitions and example inputs\<close>

text \<open>The delay of the retry that is scheduled when the counter stands at \<open>k\<close>.\<close>

definition delay_of :: "nat \<Rightarrow> nat" where
  "delay_of k = (if k < 6 then 5000 else 15000)"

text \<open>
  An example environment: layer-progress tracking disabled, placeholder conversions, and
  an enumeration object with three of the members the service names.
\<close>

definition example_env :: "nat env" where
  "example_env =
     \<lparr>isDisplayLayerProgressEnabled = False,
      convertSecondsToHours = (\<lambda>x. ''h''),
      convertFilamentLengthToWeight = (\<lambda>l. l),
      js_Number = (\<lambda>x. NaN),
      PrinterState = map_of [(''connecting'', 0), (''printing'', 1), (''paused'', 2)]\<rparr>"

definition example_auth :: SocketAuth where
  "example_auth = \<lparr>user = ''octo'', session = ''k1''\<rparr>"

text \<open>A message that has only the property \<^verbatim>\<open>event\<close>.\<close>

definition event_message :: "string \<Rightarrow> Message" where
  "event_message ty =
     \<lparr>m_current = None, m_event = Some ty, m_plugin = None, m_reauth = False, m_connected = False\<rparr>"

text \<open>A message that has only the property \<^verbatim>\<open>current\<close>.\<close>

definition current_message :: "OctoprintSocketCurrent \<Rightarrow> Message" where
  "current_message c =
     \<lparr>m_current = Some c, m_event = None, m_plugin = None, m_reauth = False, m_connected = False\<rparr>"

text \<open>The arrival of a \<^verbatim>\<open>current\<close> frame, given with the clock at its arrival.\<close>

definition frame_action :: "int \<times> OctoprintSocketCurrent \<Rightarrow> action" where
  "frame_action f = Socket_message (fst f) (current_message (snd f))"

text \<open>
  An example \<^verbatim>\<open>current\<close> frame: no temperature sample, the given state label, a
  local file of the given name, no filament data, no estimated print time, no height,
  and the given remaining print time.
\<close>

definition example_frame :: "string \<Rightarrow> string \<Rightarrow> real js \<Rightarrow> OctoprintSocketCurrent" where
  "example_frame text name left =
     \<lparr>temps = [], state_text = text,
      job_file = Val \<lparr>display = Val name, origin = Val ''local'', path = Val name\<rparr>,
      job_filament = Undefined, job_estimatedPrintTime = Undefined,
      progress_completion = Val 0, progress_printTime = Null,
      progress_printTimeLeft = left, currentZ = Undefined\<rparr>"

text \<open>A new service after \<^verbatim>\<open>connect()\<close> and the arrival of the credentials.\<close>

definition example_service :: "nat service" where
  "example_service = tryConnect_next example_auth (connect example_env constructor)"

text \<open>The status that \<open>extractPrinterStatus\<close> assigns for a frame.\<close>

definition machine_state :: "'v env \<Rightarrow> OctoprintSocketCurrent \<Rightarrow> 'v option" where
  "machine_state env c = PrinterState env (toLowerCase (state_text c))"

text \<open>The record the assignments of \<open>extractJobStatus\<close> start from.\<close>

definition start_record :: "'v env \<Rightarrow> OctoprintSocketCurrent \<Rightarrow> 'v service \<Rightarrow> JobStatus" where
  "start_record env m s =
     (if file_j (jobStatus s) \<noteq> file_of m then initJobStatus env else jobStatus s)"

text \<open>Subscriber number \<open>n\<close> of a subject has been given every value of the buffer.\<close>

definition received_all :: "nat \<Rightarrow> 'a ReplaySubject \<Rightarrow> bool" where
  "received_all n r = (n < length (observers r) \<and> observers r ! n = buffer r)"

text \<open>The upper-case ASCII letters.\<close>

definition is_upper :: "char \<Rightarrow> bool" where
  "is_upper c = (c \<in> set ''ABCDEFGHIJKLMNOPQRSTUVWXYZ'')"




section \<open>Properties\<close>

subsection \<open>What each callback leaves alone\<close>

lemma funpow_preserves:
  assumes "P s" and "\<And>t. P t \<Longrightarrow> P (f t)"
  shows "P ((f ^^ k) s)"
  using assms by (induction k) auto

lemma newState_not_UNKNOWN: "newState ty = Some e \<Longrightarrow> e \<noteq> UNKNOWN"
  by (auto simp: newState_def split: if_splits)

lemma extractPrinterEvent_frame:
  "fastInterval (extractPrinterEvent ty s) = fastInterval s"
  "scheduled (extractPrinterEvent ty s) = scheduled s"
  "handlers (extractPrinterEvent ty s) = handlers s"
  "printerStatus (extractPrinterEvent ty s) = printerStatus s"
  "jobStatus (extractPrinterEvent ty s) = jobStatus s"
  "printerStatusSubject (extractPrinterEvent ty s) = printerStatusSubject s"
  "jobStatusSubject (extractPrinterEvent ty s) = jobStatusSubject s"
  by (simp_all add: extractPrinterEvent_def split: option.splits)

lemma extractPrinterStatus_frame:
  "fastInterval (extractPrinterStatus env m s) = fastInterval s"
  "scheduled (extractPrinterStatus env m s) = scheduled s"
  "handlers (extractPrinterStatus env m s) = handlers s"
  "jobStatus (extractPrinterStatus env m s) = jobStatus s"
  "jobStatusSubject (extractPrinterStatus env m s) = jobStatusSubject s"
  by (simp_all add: extractPrinterStatus_def Let_def extractPrinterEvent_frame)

lemma extractJobStatus_frame:
  "fastInterval (extractJobStatus env now m s) = fastInterval s"
  "scheduled (extractJobStatus env now m s) = scheduled s"
  "handlers (extractJobStatus env now m s) = handlers s"
  "printerStatus (extractJobStatus env now m s) = printerStatus s"
  "printerStatusSubject (extractJobStatus env now m s) = printerStatusSubject s"
  "lastState (extractJobStatus env now m s) = lastState s"
  "eventSubject (extractJobStatus env now m s) = eventSubject s"
  by (simp_all add: extractJobStatus_def Let_def)

lemma on_message_frame:
  "fastInterval (on_message env now msg s) = fastInterval s"
  "scheduled (on_message env now msg s) = scheduled s"
  "handlers (on_message env now msg s) = handlers s"
  by (simp_all add: on_message_def extractPrinterStatus_frame extractJobStatus_frame
        extractPrinterEvent_frame extractFanSpeed_def extractLayerHeight_def
        split: option.splits)

subsection \<open>The retry counter\<close>

lemma funpow_on_message_frame:
  "fastInterval (((on_message env now msg) ^^ k) s) = fastInterval s"
  "scheduled (((on_message env now msg) ^^ k) s) = scheduled s"
  by (induction k) (simp_all add: on_message_frame)

lemma tryConnect_error_counter:
  "fastInterval (tryConnect_error s) = Suc (fastInterval s)"
  "scheduled (tryConnect_error s) = scheduled s @ [delay_of (fastInterval s)]"
  by (simp_all add: tryConnect_error_def delay_of_def)

lemma step_counter:
  "a \<noteq> SessionKey_error \<Longrightarrow> fastInterval (step env a s) = fastInterval s"
  "a \<noteq> SessionKey_error \<Longrightarrow> scheduled (step env a s) = scheduled s"
  by (cases a; simp add: connect_def tryConnect_next_def
        authenticateSocket_def setupSocket_def connectSocket_def funpow_on_message_frame
        reauth_next_def checkPrinterConnection_next_def subscribe_printerStatus_def
        subscribe_jobStatus_def subscribe_event_def)+

lemma run_append: "run env (as @ bs) s = run env bs (run env as s)"
  by (induction as arbitrary: s) simp_all

lemma run_fastInterval:
  "fastInterval (run env as s) = fastInterval s + count_list as SessionKey_error"
proof (induction as arbitrary: s)
  case Nil
  then show ?case by simp
next
  case (Cons a as)
  then show ?case
    by (cases "a = SessionKey_error") (simp_all add: step_counter tryConnect_error_counter)
qed

lemma delays_Suc:
  "map (\<lambda>i. delay_of (k + i)) [0..<Suc n] = delay_of k # map (\<lambda>i. delay_of (Suc k + i)) [0..<n]"
proof -
  have "[0..<Suc n] = 0 # map Suc [0..<n]"
    by (simp add: upt_conv_Cons map_Suc_upt del: upt_Suc)
  then show ?thesis by (simp add: comp_def del: upt_Suc)
qed

lemma run_scheduled:
  "scheduled (run env as s) =
     scheduled s @ map (\<lambda>i. delay_of (fastInterval s + i)) [0..<count_list as SessionKey_error]"
proof (induction as arbitrary: s)
  case Nil
  then show ?case by simp
next
  case (Cons a as)
  show ?case
  proof (cases "a = SessionKey_error")
    case True
    have "scheduled (run env (a # as) s) =
          scheduled (step env a s) @
          map (\<lambda>i. delay_of (fastInterval (step env a s) + i)) [0..<count_list as SessionKey_error]"
      by (simp add: Cons.IH)
    also have "\<dots> = scheduled s @ delay_of (fastInterval s) #
          map (\<lambda>i. delay_of (Suc (fastInterval s) + i)) [0..<count_list as SessionKey_error]"
      using True by (simp add: tryConnect_error_counter)
    also have "\<dots> = scheduled s @
          map (\<lambda>i. delay_of (fastInterval s + i)) [0..<Suc (count_list as SessionKey_error)]"
      by (simp only: delays_Suc)
    finally show ?thesis using True by simp
  next
    case False
    then show ?thesis by (simp add: Cons.IH step_counter)
  qed
qed

lemma delays_fast: "k + n \<le> 6 \<Longrightarrow> map (\<lambda>i. delay_of (k + i)) [0..<n] = replicate n 5000"
proof -
  assume "k + n \<le> 6"
  then have "map (\<lambda>i. delay_of (k + i)) [0..<n] = map (\<lambda>i. 5000) [0..<n]"
    by (intro map_cong) (auto simp: delay_of_def)
  then show ?thesis by (simp add: map_replicate_const)
qed

lemma delays_slow: "6 \<le> k \<Longrightarrow> map (\<lambda>i. delay_of (k + i)) [0..<n] = replicate n 15000"
proof -
  assume "6 \<le> k"
  then have "map (\<lambda>i. delay_of (k + i)) [0..<n] = map (\<lambda>i. 15000) [0..<n]"
    by (intro map_cong) (auto simp: delay_of_def)
  then show ?thesis by (simp add: map_replicate_const)
qed

lemma delays_from_zero:
  "map delay_of [0..<n] = replicate (min n 6) 5000 @ replicate (n - 6) 15000"
proof (cases "n \<le> 6")
  case True
  then show ?thesis using delays_fast [of 0 n] by (simp add: min_def)
next
  case False
  then have "[0..<6 + (n - 6)] = [0..<6] @ [6..<6 + (n - 6)]"
    by (intro upt_add_eq_append) simp
  moreover have "[6..<6 + (n - 6)] = map (\<lambda>i. 6 + i) [0..<n - 6]"
    by (simp add: map_add_upt add.commute)
  ultimately have n: "[0..<n] = [0..<6] @ map (\<lambda>i. 6 + i) [0..<n - 6]"
    using False by simp
  have "map delay_of [0..<n] =
        map (\<lambda>i. delay_of (0 + i)) [0..<6] @ map (\<lambda>i. delay_of (6 + i)) [0..<n - 6]"
    unfolding n by (simp add: comp_def del: upt_Suc)
  also have "map (\<lambda>i. delay_of (0 + i)) [0..<6] = replicate 6 5000"
    by (rule delays_fast) simp
  also have "map (\<lambda>i. delay_of (6 + i)) [0..<n - 6] = replicate (n - 6) 15000"
    by (rule delays_slow) simp
  finally show ?thesis using False by (simp add: min_def)
qed

lemma count_list_replicate: "count_list (replicate n x) x = n"
  by (induction n) simp_all

subsection \<open>Retry delays\<close>

text \<open>
  Counterexample to claim C2 as stated. The service connects, six credential requests
  fail, the seventh succeeds; \<^verbatim>\<open>connect()\<close> is called again and the first request of
  this second connection session fails. The seventh entry of \<open>scheduled\<close> is the
  delay of the first retry of the second session: it is 15 seconds, not 5.
\<close>

theorem retry_delay_second_session_counterexample:
  "drop 6 (scheduled (run example_env
      (replicate 6 SessionKey_error @ [SessionKey_next example_auth, Connect, SessionKey_error])
      (connect example_env constructor))) = [15000]"
proof -
  have z: "fastInterval (connect example_env constructor) = 0"
          "scheduled (connect example_env constructor) = []"
    by (simp_all add: connect_def constructor_def)
  have "count_list (replicate 6 SessionKey_error @ [SessionKey_next example_auth, Connect, SessionKey_error])
          SessionKey_error = 7"
    by (simp add: count_list_replicate)
  then have "scheduled (run example_env
      (replicate 6 SessionKey_error @ [SessionKey_next example_auth, Connect, SessionKey_error])
      (connect example_env constructor)) = map delay_of [0..<7]"
    by (simp add: run_scheduled z)
  then show ?thesis
    by (simp only: delays_from_zero) (simp add: numeral_eq_Suc)
qed

text \<open>
  Claim C2, amended. The delay of a retry is fixed by the number of credential requests
  that have failed since the service object was constructed, whatever \<^verbatim>\<open>connect()\<close>
  calls lie in between: \<open>n\<close> consecutive failures starting with the counter at
  \<open>fastInterval s\<close> schedule \<open>n\<close> retries, the \<open>i\<close>-th of them (from 0) after 5 seconds
  if \<open>fastInterval s + i < 6\<close> and after 15 seconds otherwise. In the first connection
  session of a service the first six retries are scheduled after 5 seconds and every
  later one after 15 seconds. Every failure schedules a retry, for every \<open>n\<close>. Over any
  run of a new service, with any number of \<^verbatim>\<open>connect()\<close> calls in it, the retries
  scheduled are one for each failure, the first six after 5 seconds and the others
  after 15 seconds.
\<close>

theorem retry_delay_counts_failures_since_construction:
  "scheduled (run env (replicate n SessionKey_error) s) =
     scheduled s @ map (\<lambda>i. if fastInterval s + i < 6 then 5000 else 15000) [0..<n] \<and>
   scheduled (run env (replicate n SessionKey_error) (connect env constructor)) =
     replicate (min n 6) 5000 @ replicate (n - 6) 15000 \<and>
   length (scheduled (run env (replicate n SessionKey_error) s)) = length (scheduled s) + n \<and>
   scheduled (run env as (connect env constructor)) =
     map (\<lambda>i. if i < 6 then 5000 else 15000) [0..<count_list as SessionKey_error]"
proof -
  have z: "fastInterval (connect env constructor) = 0" "scheduled (connect env constructor) = []"
    by (simp_all add: connect_def constructor_def)
  have "scheduled (run env (replicate n SessionKey_error) (connect env constructor)) =
        map delay_of [0..<n]"
    by (simp add: run_scheduled count_list_replicate z)
  moreover have "map (\<lambda>i. delay_of (fastInterval s + i)) [0..<n] =
      map (\<lambda>i. if fastInterval s + i < 6 then 5000 else 15000) [0..<n]"
    by (simp add: delay_of_def)
  moreover have "scheduled (run env as (connect env constructor)) =
     map (\<lambda>i. if i < 6 then 5000 else 15000) [0..<count_list as SessionKey_error]"
    by (simp add: run_scheduled z delay_of_def)
  ultimately show ?thesis
    by (simp add: delays_from_zero run_scheduled count_list_replicate)
qed

text \<open>
  Claim C9. \<^verbatim>\<open>connect()\<close> sets the printer status, the job status and the last event
  to their initial values and leaves \<open>fastInterval\<close> as it is. After any run of a new
  service the counter is the number of credential requests that have failed in the
  whole run, across all \<^verbatim>\<open>connect()\<close> calls; and once six requests have failed, every
  retry scheduled after a further \<^verbatim>\<open>connect()\<close> has the delay of 15 seconds.
\<close>

theorem connect_keeps_fastInterval:
  "printerStatus (connect env s) = initPrinterStatus env \<and>
   jobStatus (connect env s) = initJobStatus env \<and>
   lastState (connect env s) = UNKNOWN \<and>
   fastInterval (connect env s) = fastInterval s \<and>
   fastInterval (run env as (connect env constructor)) = count_list as SessionKey_error \<and>
   (6 \<le> count_list as SessionKey_error \<longrightarrow>
      scheduled (run env (as @ Connect # bs) (connect env constructor)) =
        scheduled (run env as (connect env constructor)) @
        replicate (count_list bs SessionKey_error) 15000)"
proof -
  have z: "fastInterval (connect env constructor) = 0"
    by (simp add: connect_def constructor_def)
  have f: "fastInterval (run env as (connect env constructor)) = count_list as SessionKey_error"
    by (simp add: run_fastInterval z)
  have r: "scheduled (run env (as @ Connect # bs) (connect env constructor)) =
        scheduled (run env as (connect env constructor)) @
        replicate (count_list bs SessionKey_error) 15000"
    if "6 \<le> count_list as SessionKey_error"
  proof -
    let ?t = "run env as (connect env constructor)"
    have "scheduled (run env (as @ Connect # bs) (connect env constructor)) =
          scheduled (run env bs (connect env ?t))"
      by (simp add: run_append)
    also have "\<dots> = scheduled (connect env ?t) @
          map (\<lambda>i. delay_of (fastInterval (connect env ?t) + i)) [0..<count_list bs SessionKey_error]"
      by (rule run_scheduled)
    also have "fastInterval (connect env ?t) = count_list as SessionKey_error"
      using f by (simp add: connect_def)
    also have "scheduled (connect env ?t) = scheduled ?t"
      by (simp add: connect_def)
    finally show ?thesis using that by (simp only: delays_slow)
  qed
  show ?thesis using f r by (simp add: connect_def)
qed

theorem connect_keeps_fastInterval_witness:
  "6 \<le> count_list (replicate 6 SessionKey_error @ [SessionKey_next example_auth]) SessionKey_error \<and>
   scheduled (run example_env
      ((replicate 6 SessionKey_error @ [SessionKey_next example_auth]) @ Connect # [SessionKey_error])
      (connect example_env constructor)) =
   scheduled (run example_env (replicate 6 SessionKey_error @ [SessionKey_next example_auth])
      (connect example_env constructor)) @ [15000]"
  using connect_keeps_fastInterval [of example_env "connect example_env constructor"
      "replicate 6 SessionKey_error @ [SessionKey_next example_auth]" "[SessionKey_error]"]
  by (simp add: count_list_replicate)

subsection \<open>Events\<close>

text \<open>
  Claim C4. The raw type string of an event frame is mapped by the transition table:
  \<^verbatim>\<open>PrintStarted\<close> and \<^verbatim>\<open>PrintResumed\<close> to \<open>PRINTING\<close>, \<^verbatim>\<open>PrintPaused\<close> to \<open>PAUSED\<close>,
  \<^verbatim>\<open>PrintFailed\<close>, \<^verbatim>\<open>PrintDone\<close> and \<^verbatim>\<open>PrintCancelled\<close> to \<open>IDLE\<close>, \<^verbatim>\<open>Connected\<close>
  to \<open>CONNECTED\<close>, \<^verbatim>\<open>Disconnected\<close> and \<^verbatim>\<open>Error\<close> to \<open>CLOSED\<close>, and every other
  string to nothing. On a recognised type the last event is overwritten with the new
  value, which is appended to the published events and delivered to every subscriber,
  and nothing else changes; on any other type the whole service state is unchanged, so
  the last event is kept and nothing is published. The dispatcher hands a message that
  has the property \<^verbatim>\<open>event\<close> and not \<^verbatim>\<open>current\<close> to \<open>extractPrinterEvent\<close>.
\<close>

theorem event_transition_table:
  "newState ''PrintStarted'' = Some PRINTING \<and> newState ''PrintResumed'' = Some PRINTING \<and>
   newState ''PrintPaused'' = Some PAUSED \<and>
   newState ''PrintFailed'' = Some IDLE \<and> newState ''PrintDone'' = Some IDLE \<and>
   newState ''PrintCancelled'' = Some IDLE \<and>
   newState ''Connected'' = Some CONNECTED \<and>
   newState ''Disconnected'' = Some CLOSED \<and> newState ''Error'' = Some CLOSED \<and>
   (ty \<notin> {''PrintStarted'', ''PrintResumed'', ''PrintPaused'', ''PrintFailed'', ''PrintDone'',
            ''PrintCancelled'', ''Connected'', ''Disconnected'', ''Error''} \<longrightarrow> newState ty = None) \<and>
   (newState ty = Some e \<longrightarrow>
      extractPrinterEvent ty s = s\<lparr>lastState := e, eventSubject := subject_next e (eventSubject s)\<rparr> \<and>
      lastState (extractPrinterEvent ty s) = e \<and>
      buffer (eventSubject (extractPrinterEvent ty s)) = buffer (eventSubject s) @ [e] \<and>
      observers (eventSubject (extractPrinterEvent ty s)) =
        map (\<lambda>d. d @ [e]) (observers (eventSubject s))) \<and>
   (newState ty = None \<longrightarrow> extractPrinterEvent ty s = s) \<and>
   (m_current msg = None \<and> m_event msg = Some ty \<longrightarrow>
      on_message env now msg s = extractPrinterEvent ty s)"
  by (simp add: newState_def extractPrinterEvent_def on_message_def subject_next_def)

theorem event_transition_table_witness:
  "''Bogus'' \<notin> {''PrintStarted'', ''PrintResumed'', ''PrintPaused'', ''PrintFailed'', ''PrintDone'',
            ''PrintCancelled'', ''Connected'', ''Disconnected'', ''Error''} \<and>
   extractPrinterEvent ''Bogus'' (connect example_env constructor) = connect example_env constructor \<and>
   m_current (event_message ''Bogus'') = None \<and>
   m_event (event_message ''Bogus'') = Some ''Bogus'' \<and>
   on_message example_env 0 (event_message ''Bogus'') (connect example_env constructor) =
     connect example_env constructor \<and>
   newState ''PrintPaused'' = Some PAUSED \<and>
   lastState (extractPrinterEvent ''PrintPaused'' (connect example_env constructor)) = PAUSED \<and>
   buffer (eventSubject (extractPrinterEvent ''PrintPaused'' (connect example_env constructor))) =
     buffer (eventSubject (connect example_env constructor)) @ [PAUSED]"
proof -
  note b = event_transition_table [of "''Bogus''" PAUSED "connect example_env constructor"
           "event_message ''Bogus''" example_env 0]
  note p = event_transition_table [of "''PrintPaused''" PAUSED "connect example_env constructor"
           "event_message ''PrintPaused''" example_env 0]
  have 1: "''Bogus'' \<notin> {''PrintStarted'', ''PrintResumed'', ''PrintPaused'', ''PrintFailed'',
            ''PrintDone'', ''PrintCancelled'', ''Connected'', ''Disconnected'', ''Error''}"
    by simp
  have 2: "m_current (event_message ''Bogus'') = None"
          "m_event (event_message ''Bogus'') = Some ''Bogus''"
    by (simp_all add: event_message_def)
  have 3: "newState ''Bogus'' = None" using b 1 by simp
  have 4: "extractPrinterEvent ''Bogus'' (connect example_env constructor) =
        connect example_env constructor" using b 3 by simp
  have 5: "on_message example_env 0 (event_message ''Bogus'')
        (connect example_env constructor) = connect example_env constructor"
    using b 2 4 by simp
  have 6: "newState ''PrintPaused'' = Some PAUSED" using p by simp
  have 7: "lastState (extractPrinterEvent ''PrintPaused'' (connect example_env constructor)) = PAUSED"
   "buffer (eventSubject (extractPrinterEvent ''PrintPaused'' (connect example_env constructor))) =
     buffer (eventSubject (connect example_env constructor)) @ [PAUSED]"
    using p 6 by (simp_all add: subject_next_def)
  show ?thesis
    by (intro conjI) (rule 1 2 4 5 6 7)+
qed

lemma extractPrinterEvent_lastState:
  "lastState s \<noteq> UNKNOWN \<Longrightarrow> lastState (extractPrinterEvent ty s) \<noteq> UNKNOWN"
  by (cases "newState ty") (simp_all add: extractPrinterEvent_def newState_not_UNKNOWN)

lemma extractPrinterStatus_lastState:
  "lastState s \<noteq> UNKNOWN \<Longrightarrow> lastState (extractPrinterStatus env m s) = lastState s"
  "lastState s \<noteq> UNKNOWN \<Longrightarrow> eventSubject (extractPrinterStatus env m s) = eventSubject s"
  by (simp_all add: extractPrinterStatus_def Let_def)

lemma on_message_lastState:
  "lastState s \<noteq> UNKNOWN \<Longrightarrow> lastState (on_message env now msg s) \<noteq> UNKNOWN"
  by (simp add: on_message_def extractJobStatus_frame extractPrinterStatus_lastState
        extractPrinterEvent_lastState extractFanSpeed_def extractLayerHeight_def
        split: option.splits)

lemma step_lastState:
  "a \<noteq> Connect \<Longrightarrow> lastState s \<noteq> UNKNOWN \<Longrightarrow> lastState (step env a s) \<noteq> UNKNOWN"
proof (cases a)
  case (Socket_message now m)
  assume "lastState s \<noteq> UNKNOWN"
  then have "lastState (((on_message env now m) ^^ handlers s) s) \<noteq> UNKNOWN"
    by (rule funpow_preserves) (rule on_message_lastState)
  then show ?thesis using Socket_message by simp
qed (simp_all add: tryConnect_error_def tryConnect_next_def authenticateSocket_def
       setupSocket_def connectSocket_def reauth_next_def checkPrinterConnection_next_def
       subscribe_printerStatus_def subscribe_jobStatus_def subscribe_event_def)

lemma run_lastState:
  "Connect \<notin> set as \<Longrightarrow> lastState s \<noteq> UNKNOWN \<Longrightarrow> lastState (run env as s) \<noteq> UNKNOWN"
proof (induction as arbitrary: s)
  case Nil
  then show ?case by simp
next
  case (Cons a as)
  from Cons.prems have "a \<noteq> Connect" "Connect \<notin> set as" by auto
  with Cons.prems have "lastState (step env a s) \<noteq> UNKNOWN"
    by (intro step_lastState)
  with \<open>Connect \<notin> set as\<close> show ?case by (simp add: Cons.IH)
qed

text \<open>
  Claim C10. \<open>extractPrinterEvent\<close> never produces \<open>UNKNOWN\<close>. When a call of it
  publishes an event, the last event it leaves is the published value, and it is not
  \<open>UNKNOWN\<close>. A last event other than \<open>UNKNOWN\<close> stays other than \<open>UNKNOWN\<close> under
  every callback of the service except \<^verbatim>\<open>connect()\<close>; so after a recognised event has
  been processed the last event is never \<open>UNKNOWN\<close> in any run without \<^verbatim>\<open>connect()\<close>.
\<close>

theorem lastState_never_UNKNOWN_again:
  "newState ty \<noteq> Some UNKNOWN \<and>
   (buffer (eventSubject (extractPrinterEvent ty s)) \<noteq> buffer (eventSubject s) \<longrightarrow>
      buffer (eventSubject (extractPrinterEvent ty s)) =
        buffer (eventSubject s) @ [lastState (extractPrinterEvent ty s)]) \<and>
   (extractPrinterEvent ty s \<noteq> s \<longrightarrow> lastState (extractPrinterEvent ty s) \<noteq> UNKNOWN) \<and>
   (lastState s \<noteq> UNKNOWN \<longrightarrow> lastState (extractPrinterEvent ty s) \<noteq> UNKNOWN) \<and>
   (newState ty \<noteq> None \<and> Connect \<notin> set as \<longrightarrow>
      lastState (run env as (extractPrinterEvent ty s)) \<noteq> UNKNOWN) \<and>
   (lastState s \<noteq> UNKNOWN \<and> Connect \<notin> set as \<longrightarrow> lastState (run env as s) \<noteq> UNKNOWN)"
proof -
  have a: "buffer (eventSubject (extractPrinterEvent ty s)) =
        buffer (eventSubject s) @ [lastState (extractPrinterEvent ty s)]"
    if "buffer (eventSubject (extractPrinterEvent ty s)) \<noteq> buffer (eventSubject s)"
    using that by (simp add: extractPrinterEvent_def subject_next_def split: option.splits)
  have c: "lastState (extractPrinterEvent ty s) \<noteq> UNKNOWN" if "newState ty \<noteq> None"
  proof -
    from that obtain e where e: "newState ty = Some e" by blast
    then have "lastState (extractPrinterEvent ty s) = e"
      by (simp add: extractPrinterEvent_def)
    with e show ?thesis by (simp add: newState_not_UNKNOWN)
  qed
  have b: "lastState (extractPrinterEvent ty s) \<noteq> UNKNOWN" if "extractPrinterEvent ty s \<noteq> s"
  proof -
    from that have "newState ty \<noteq> None"
      by (cases "newState ty") (simp_all add: extractPrinterEvent_def)
    then show ?thesis by (rule c)
  qed
  have d: "lastState (run env as (extractPrinterEvent ty s)) \<noteq> UNKNOWN"
    if "newState ty \<noteq> None" "Connect \<notin> set as"
    using that c by (intro run_lastState)
  have e: "lastState (run env as s) \<noteq> UNKNOWN" if "lastState s \<noteq> UNKNOWN" "Connect \<notin> set as"
    using that by (intro run_lastState)
  have f: "lastState (extractPrinterEvent ty s) \<noteq> UNKNOWN" if "lastState s \<noteq> UNKNOWN"
    using that by (rule extractPrinterEvent_lastState)
  have z: "newState ty \<noteq> Some UNKNOWN"
    using newState_not_UNKNOWN [of ty UNKNOWN] by auto
  show ?thesis
    by (intro conjI impI; (elim conjE)?) (rule a b d e f z; assumption)+
qed

theorem lastState_never_UNKNOWN_again_witness:
  "newState ''PrintStarted'' \<noteq> None \<and>
   Connect \<notin> set [Socket_message 5 (event_message ''Bogus''), SessionKey_error, Subscribe_event] \<and>
   lastState (run example_env
      [Socket_message 5 (event_message ''Bogus''), SessionKey_error, Subscribe_event]
      (extractPrinterEvent ''PrintStarted'' example_service)) \<noteq> UNKNOWN \<and>
   extractPrinterEvent ''PrintStarted'' example_service \<noteq> example_service \<and>
   buffer (eventSubject (extractPrinterEvent ''PrintStarted'' example_service)) \<noteq>
     buffer (eventSubject example_service) \<and>
   buffer (eventSubject (extractPrinterEvent ''PrintStarted'' example_service)) =
     buffer (eventSubject example_service) @
       [lastState (extractPrinterEvent ''PrintStarted'' example_service)] \<and>
   lastState (extractPrinterEvent ''PrintStarted'' example_service) \<noteq> UNKNOWN \<and>
   lastState (extractPrinterEvent ''PrintPaused'' (extractPrinterEvent ''PrintStarted'' example_service))
     \<noteq> UNKNOWN \<and>
   lastState (run example_env
      [Socket_message 5 (event_message ''Bogus''), SessionKey_error, Subscribe_event]
      (extractPrinterEvent ''PrintPaused'' (extractPrinterEvent ''PrintStarted'' example_service)))
     \<noteq> UNKNOWN"
proof -
  let ?as = "[Socket_message 5 (event_message ''Bogus''), SessionKey_error, Subscribe_event]"
  let ?s1 = "extractPrinterEvent ''PrintStarted'' example_service"
  note t1 = lastState_never_UNKNOWN_again [of "''PrintStarted''" example_service ?as example_env]
  note t2 = lastState_never_UNKNOWN_again [of "''PrintPaused''" ?s1 ?as example_env]
  have n: "newState ''PrintStarted'' \<noteq> None" "newState ''PrintPaused'' \<noteq> None"
    by (simp_all add: newState_def)
  have c: "Connect \<notin> set ?as" by simp
  have b: "buffer (eventSubject ?s1) \<noteq> buffer (eventSubject example_service)"
    by (simp add: extractPrinterEvent_def newState_def subject_next_def)
  then have e: "?s1 \<noteq> example_service" by auto
  have 2: "buffer (eventSubject ?s1) =
     buffer (eventSubject example_service) @ [lastState ?s1]" using t1 b by simp
  have 3: "lastState ?s1 \<noteq> UNKNOWN" using t1 e by simp
  have 1: "lastState (run example_env ?as ?s1) \<noteq> UNKNOWN" using t2 3 c by simp
  have 4: "lastState (extractPrinterEvent ''PrintPaused'' ?s1) \<noteq> UNKNOWN" using t2 3 by simp
  have 5: "lastState (run example_env ?as (extractPrinterEvent ''PrintPaused'' ?s1)) \<noteq> UNKNOWN"
    using t2 n c by simp
  from n(1) c 1 e b 2 3 4 5 show ?thesis by (intro conjI)
qed

subsection \<open>The event subscribable\<close>

lemma received_all_next: "received_all n r \<Longrightarrow> received_all n (subject_next v r)"
  by (simp add: received_all_def subject_next_def)

lemma received_all_subscribe: "received_all n r \<Longrightarrow> received_all n (subject_subscribe r)"
  by (simp add: received_all_def subject_subscribe_def nth_append)

lemma received_all_new: "received_all (length (observers r)) (subject_subscribe r)"
  by (simp add: received_all_def subject_subscribe_def)

lemma extractPrinterEvent_received_all:
  "received_all n (eventSubject s) \<Longrightarrow> received_all n (eventSubject (extractPrinterEvent ty s))"
  by (cases "newState ty") (simp_all add: extractPrinterEvent_def received_all_next)

lemma extractPrinterStatus_eventSubject:
  "eventSubject (extractPrinterStatus env m s) = eventSubject s \<or>
   eventSubject (extractPrinterStatus env m s) = eventSubject (extractPrinterEvent ''PrintStarted'' s) \<or>
   eventSubject (extractPrinterStatus env m s) = eventSubject (extractPrinterEvent ''PrintPaused'' s)"
  by (simp add: extractPrinterStatus_def Let_def extractPrinterEvent_def split: option.splits)

lemma extractPrinterStatus_received_all:
  "received_all n (eventSubject s) \<Longrightarrow> received_all n (eventSubject (extractPrinterStatus env m s))"
  using extractPrinterStatus_eventSubject [of env m s]
        extractPrinterEvent_received_all [of n s]
  by metis

lemma on_message_received_all:
  "received_all n (eventSubject s) \<Longrightarrow> received_all n (eventSubject (on_message env now msg s))"
  by (simp add: on_message_def extractJobStatus_frame extractPrinterStatus_received_all
        extractPrinterEvent_received_all extractFanSpeed_def extractLayerHeight_def
        split: option.splits)

lemma step_received_all:
  "received_all n (eventSubject s) \<Longrightarrow> received_all n (eventSubject (step env a s))"
proof (cases a)
  case (Socket_message now m)
  assume "received_all n (eventSubject s)"
  then have "received_all n (eventSubject (((on_message env now m) ^^ handlers s) s))"
    by (rule funpow_preserves) (rule on_message_received_all)
  then show ?thesis using Socket_message by simp
qed (simp_all add: connect_def tryConnect_error_def tryConnect_next_def authenticateSocket_def
       setupSocket_def connectSocket_def reauth_next_def checkPrinterConnection_next_def
       subscribe_printerStatus_def subscribe_jobStatus_def subscribe_event_def
       getEventSubscribable_def received_all_next received_all_subscribe)

lemma run_received_all:
  "received_all n (eventSubject s) \<Longrightarrow> received_all n (eventSubject (run env as s))"
  by (induction as arbitrary: s) (simp_all add: step_received_all)

text \<open>
  Counterexample to claim C1 as stated. The credentials arrive, the event frame
  \<^verbatim>\<open>PrintStarted\<close> is handled and \<open>PRINTING\<close> is published; a subscriber that
  subscribes to the event subscribable only then is given \<open>PRINTING\<close>, an event
  published before its subscription.
\<close>

theorem event_subscribable_replay_counterexample:
  "last (observers (eventSubject (run example_env
      [SessionKey_next example_auth, Socket_message 0 (event_message ''PrintStarted''), Subscribe_event]
      (connect example_env constructor)))) = [PRINTING]"
  by (simp add: connect_def constructor_def tryConnect_next_def authenticateSocket_def
        setupSocket_def connectSocket_def on_message_def event_message_def extractPrinterEvent_def
        newState_def subject_next_def subscribe_event_def getEventSubscribable_def
        subject_subscribe_def new_ReplaySubject_def)

text \<open>
  Claim C1, amended. The event subscribable is the \<^verbatim>\<open>ReplaySubject\<close> itself: a
  subscriber that subscribes after events have been published is first given every
  event published so far, in the order of publication, and afterwards every event
  published later. At any time of any run the values it has been given are all the
  events the service has ever published.
\<close>

theorem event_subscribable_replays:
  "observers (eventSubject (subscribe_event s)) =
     observers (eventSubject s) @ [buffer (eventSubject s)] \<and>
   buffer (eventSubject (subscribe_event s)) = buffer (eventSubject s) \<and>
   observers (eventSubject (run env as (subscribe_event s))) ! length (observers (eventSubject s)) =
     buffer (eventSubject (run env as (subscribe_event s)))"
proof -
  have "received_all (length (observers (eventSubject s))) (eventSubject (subscribe_event s))"
    by (simp add: subscribe_event_def getEventSubscribable_def received_all_new)
  then have "received_all (length (observers (eventSubject s)))
               (eventSubject (run env as (subscribe_event s)))"
    by (rule run_received_all)
  then show ?thesis
    by (simp add: received_all_def subscribe_event_def getEventSubscribable_def subject_subscribe_def)
qed

subsection \<open>Printer status\<close>

lemma extractPrinterStatus_status:
  "status (printerStatus (extractPrinterStatus env m s)) = machine_state env m"
  "buffer (printerStatusSubject (extractPrinterStatus env m s)) =
     buffer (printerStatusSubject s) @ [printerStatus (extractPrinterStatus env m s)]"
  by (simp_all add: extractPrinterStatus_def Let_def machine_state_def extractPrinterEvent_frame
        subject_next_def split: list.splits)




lemma lower_char_not_upper: "\<not> is_upper (lower_char c)"
  by (cases "is_upper c") (auto simp add: lower_char_def is_upper_def)





lemma synth_printing:
  assumes "lastState s = UNKNOWN" "machine_state env c = PrinterState env ''printing''"
  shows "lastState (extractPrinterStatus env c s) = PRINTING"
    and "eventSubject (extractPrinterStatus env c s) = subject_next PRINTING (eventSubject s)"
  using assms
  by (simp_all add: extractPrinterStatus_def Let_def machine_state_def extractPrinterEvent_def
        newState_def)

lemma synth_paused:
  assumes "lastState s = UNKNOWN" "machine_state env c = PrinterState env ''paused''"
    "PrinterState env ''paused'' \<noteq> PrinterState env ''printing''"
  shows "lastState (extractPrinterStatus env c s) = PAUSED"
    and "eventSubject (extractPrinterStatus env c s) = subject_next PAUSED (eventSubject s)"
  using assms
  by (simp_all add: extractPrinterStatus_def Let_def machine_state_def extractPrinterEvent_def
        newState_def)

lemma on_current:
  "on_message env now (current_message c) s = extractJobStatus env now c (extractPrinterStatus env c s)"
  by (simp add: on_message_def current_message_def)

lemma on_current_quiet:
  assumes "lastState s \<noteq> UNKNOWN"
  shows "lastState (on_message env now (current_message c) s) = lastState s \<and>
         eventSubject (on_message env now (current_message c) s) = eventSubject s"
  using assms by (simp add: on_current extractJobStatus_frame extractPrinterStatus_lastState)

lemma funpow_on_current_quiet:
  assumes "lastState s \<noteq> UNKNOWN"
  shows "lastState (((on_message env now (current_message c)) ^^ k) s) = lastState s \<and>
         eventSubject (((on_message env now (current_message c)) ^^ k) s) = eventSubject s"
proof (induction k)
  case 0
  show ?case by simp
next
  case (Suc k)
  then show ?case using assms on_current_quiet [where s = "((on_message env now (current_message c)) ^^ k) s" and env = env and now = now and c = c]
    by simp
qed

lemma run_frames_quiet:
  assumes "lastState s \<noteq> UNKNOWN"
  shows "lastState (run env (map frame_action fs) s) = lastState s \<and>
         eventSubject (run env (map frame_action fs) s) = eventSubject s"
  using assms
proof (induction fs arbitrary: s)
  case Nil
  show ?case by simp
next
  case (Cons f fs)
  let ?t = "step env (frame_action f) s"
  have t: "lastState ?t = lastState s \<and> eventSubject ?t = eventSubject s"
    using funpow_on_current_quiet [OF Cons.prems] by (simp add: frame_action_def)
  with Cons.prems have "lastState ?t \<noteq> UNKNOWN" by simp
  from Cons.IH [OF this] t show ?case by simp
qed

lemma first_frame:
  assumes "0 < handlers s" "lastState s = UNKNOWN"
    and "lastState (extractPrinterStatus env (snd f) s) = e"
    and "eventSubject (extractPrinterStatus env (snd f) s) = subject_next e (eventSubject s)"
    and "e \<noteq> UNKNOWN"
  shows "lastState (step env (frame_action f) s) = e \<and>
         eventSubject (step env (frame_action f) s) = subject_next e (eventSubject s)"
proof -
  let ?h = "on_message env (fst f) (current_message (snd f))"
  from assms(1) obtain k where k: "handlers s = Suc k" by (cases "handlers s") auto
  have 1: "lastState (?h s) = e \<and> eventSubject (?h s) = subject_next e (eventSubject s)"
    using assms(3,4) by (simp add: on_current extractJobStatus_frame)
  with assms(5) have "lastState (?h s) \<noteq> UNKNOWN" by simp
  from funpow_on_current_quiet [OF this, where env = env and now = "fst f" and c = "snd f" and k = k] 1
  have "lastState ((?h ^^ k) (?h s)) = e \<and>
        eventSubject ((?h ^^ k) (?h s)) = subject_next e (eventSubject s)"
    by simp
  then show ?thesis using k by (simp add: frame_action_def funpow_swap1)
qed

lemma once:
  assumes "0 < handlers s" "lastState s = UNKNOWN"
    and "lastState (extractPrinterStatus env (snd f) s) = e"
    and "eventSubject (extractPrinterStatus env (snd f) s) = subject_next e (eventSubject s)"
    and "e \<noteq> UNKNOWN"
  shows "lastState (run env (map frame_action (f # fs)) s) = e \<and>
         eventSubject (run env (map frame_action (f # fs)) s) = subject_next e (eventSubject s)"
proof -
  let ?t = "step env (frame_action f) s"
  have t: "lastState ?t = e \<and> eventSubject ?t = subject_next e (eventSubject s)"
    using assms by (rule first_frame)
  with assms(5) have "lastState ?t \<noteq> UNKNOWN" by simp
  from run_frames_quiet [OF this, where env = env and fs = fs] t show ?thesis by simp
qed

lemma example_service_simps:
  "handlers example_service = 1"
  "lastState example_service = UNKNOWN"
  "jobStatus example_service = initJobStatus example_env"
  "buffer (jobStatusSubject example_service) = []"
  "buffer (eventSubject example_service) = []"
  by (simp_all add: example_service_def tryConnect_next_def authenticateSocket_def setupSocket_def
        connectSocket_def connect_def constructor_def new_ReplaySubject_def)

text \<open>
  Claim C5. Let the last event be \<open>UNKNOWN\<close> and let the socket have a subscription.
  If a frame and all frames after it carry the machine state \<^verbatim>\<open>printing\<close>, handling
  the first frame feeds \<^verbatim>\<open>PrintStarted\<close> to \<open>extractPrinterEvent\<close>, and over all the
  frames exactly one event is published, \<open>PRINTING\<close>, which is the last event
  afterwards. The same holds for \<^verbatim>\<open>paused\<close>, \<^verbatim>\<open>PrintPaused\<close> and \<open>PAUSED\<close>, the
  members \<^verbatim>\<open>paused\<close> and \<^verbatim>\<open>printing\<close> of the enumeration being different values.
\<close>

theorem synthesised_event_once:
  "(0 < handlers s \<and> lastState s = UNKNOWN \<and>
    (\<forall>f \<in> set (f0 # fs). machine_state env (snd f) = PrinterState env ''printing'') \<longrightarrow>
      eventSubject (extractPrinterStatus env (snd f0) s) =
        eventSubject (extractPrinterEvent ''PrintStarted'' s) \<and>
      buffer (eventSubject (run env (map frame_action (f0 # fs)) s)) =
        buffer (eventSubject s) @ [PRINTING] \<and>
      lastState (run env (map frame_action (f0 # fs)) s) = PRINTING) \<and>
   (0 < handlers s \<and> lastState s = UNKNOWN \<and>
    PrinterState env ''paused'' \<noteq> PrinterState env ''printing'' \<and>
    (\<forall>f \<in> set (f0 # fs). machine_state env (snd f) = PrinterState env ''paused'') \<longrightarrow>
      eventSubject (extractPrinterStatus env (snd f0) s) =
        eventSubject (extractPrinterEvent ''PrintPaused'' s) \<and>
      buffer (eventSubject (run env (map frame_action (f0 # fs)) s)) =
        buffer (eventSubject s) @ [PAUSED] \<and>
      lastState (run env (map frame_action (f0 # fs)) s) = PAUSED)"
proof (intro conjI impI; elim conjE)
  assume a: "0 < handlers s" "lastState s = UNKNOWN"
    and b: "\<forall>f \<in> set (f0 # fs). machine_state env (snd f) = PrinterState env ''printing''"
  from b have c: "machine_state env (snd f0) = PrinterState env ''printing''" by simp
  note p = synth_printing [OF a(2) c]
  from once [OF a p, where fs = fs] p(2)
  show "eventSubject (extractPrinterStatus env (snd f0) s) =
        eventSubject (extractPrinterEvent ''PrintStarted'' s)"
    and "buffer (eventSubject (run env (map frame_action (f0 # fs)) s)) =
        buffer (eventSubject s) @ [PRINTING]"
    and "lastState (run env (map frame_action (f0 # fs)) s) = PRINTING"
    by (simp_all add: subject_next_def extractPrinterEvent_def newState_def)
next
  assume a: "0 < handlers s" "lastState s = UNKNOWN"
    and d: "PrinterState env ''paused'' \<noteq> PrinterState env ''printing''"
    and b: "\<forall>f \<in> set (f0 # fs). machine_state env (snd f) = PrinterState env ''paused''"
  from b have c: "machine_state env (snd f0) = PrinterState env ''paused''" by simp
  note p = synth_paused [OF a(2) c d]
  from once [OF a p, where fs = fs] p(2)
  show "eventSubject (extractPrinterStatus env (snd f0) s) =
        eventSubject (extractPrinterEvent ''PrintPaused'' s)"
    and "buffer (eventSubject (run env (map frame_action (f0 # fs)) s)) =
        buffer (eventSubject s) @ [PAUSED]"
    and "lastState (run env (map frame_action (f0 # fs)) s) = PAUSED"
    by (simp_all add: subject_next_def extractPrinterEvent_def newState_def)
qed

theorem synthesised_event_once_witness:
  "0 < handlers example_service \<and> lastState example_service = UNKNOWN \<and>
   PrinterState example_env ''paused'' \<noteq> PrinterState example_env ''printing'' \<and>
   machine_state example_env (example_frame ''Printing'' ''A.gcode'' Undefined) =
     PrinterState example_env ''printing'' \<and>
   machine_state example_env (example_frame ''PRINTING'' ''A.gcode'' Undefined) =
     PrinterState example_env ''printing'' \<and>
   buffer (eventSubject (run example_env
     (map frame_action [(0, example_frame ''Printing'' ''A.gcode'' Undefined),
                        (1, example_frame ''PRINTING'' ''A.gcode'' Undefined)]) example_service)) =
     [PRINTING] \<and>
   machine_state example_env (example_frame ''Paused'' ''A.gcode'' Undefined) =
     PrinterState example_env ''paused'' \<and>
   machine_state example_env (example_frame ''paused'' ''A.gcode'' Undefined) =
     PrinterState example_env ''paused'' \<and>
   buffer (eventSubject (run example_env
     (map frame_action [(0, example_frame ''Paused'' ''A.gcode'' Undefined),
                        (1, example_frame ''paused'' ''A.gcode'' Undefined)]) example_service)) =
     [PAUSED]"
proof -
  have m: "machine_state example_env (example_frame ''Printing'' ''A.gcode'' Undefined) =
             PrinterState example_env ''printing''"
          "machine_state example_env (example_frame ''PRINTING'' ''A.gcode'' Undefined) =
             PrinterState example_env ''printing''"
          "machine_state example_env (example_frame ''Paused'' ''A.gcode'' Undefined) =
             PrinterState example_env ''paused''"
          "machine_state example_env (example_frame ''paused'' ''A.gcode'' Undefined) =
             PrinterState example_env ''paused''"
    by (simp_all add: machine_state_def example_frame_def toLowerCase_def lower_char_def)
  have d: "PrinterState example_env ''paused'' \<noteq> PrinterState example_env ''printing''"
    by (simp add: example_env_def)
  have h: "0 < handlers example_service" "lastState example_service = UNKNOWN"
    by (simp_all add: example_service_simps)
  note t1 = synthesised_event_once [of example_service
      "(0, example_frame ''Printing'' ''A.gcode'' Undefined)"
      "[(1, example_frame ''PRINTING'' ''A.gcode'' Undefined)]" example_env]
  note t2 = synthesised_event_once [of example_service
      "(0, example_frame ''Paused'' ''A.gcode'' Undefined)"
      "[(1, example_frame ''paused'' ''A.gcode'' Undefined)]" example_env]
  have p1: "\<forall>f \<in> set [(0, example_frame ''Printing'' ''A.gcode'' Undefined),
                (1, example_frame ''PRINTING'' ''A.gcode'' Undefined)].
      machine_state example_env (snd f) = PrinterState example_env ''printing''"
    using m by simp
  have p2: "\<forall>f \<in> set [(0, example_frame ''Paused'' ''A.gcode'' Undefined),
                (1, example_frame ''paused'' ''A.gcode'' Undefined)].
      machine_state example_env (snd f) = PrinterState example_env ''paused''"
    using m by simp
  have c1: "buffer (eventSubject (run example_env
     (map frame_action [(0, example_frame ''Printing'' ''A.gcode'' Undefined),
                        (1, example_frame ''PRINTING'' ''A.gcode'' Undefined)]) example_service)) =
     [PRINTING]"
  proof -
    have "buffer (eventSubject (run example_env
     (map frame_action [(0, example_frame ''Printing'' ''A.gcode'' Undefined),
                        (1, example_frame ''PRINTING'' ''A.gcode'' Undefined)]) example_service)) =
     buffer (eventSubject example_service) @ [PRINTING]"
      by (rule t1 [THEN conjunct1, THEN mp, THEN conjunct2, THEN conjunct1]) (rule conjI h p1)+
    then show ?thesis by (simp add: example_service_simps)
  qed
  have c2: "buffer (eventSubject (run example_env
     (map frame_action [(0, example_frame ''Paused'' ''A.gcode'' Undefined),
                        (1, example_frame ''paused'' ''A.gcode'' Undefined)]) example_service)) =
     [PAUSED]"
  proof -
    have "buffer (eventSubject (run example_env
     (map frame_action [(0, example_frame ''Paused'' ''A.gcode'' Undefined),
                        (1, example_frame ''paused'' ''A.gcode'' Undefined)]) example_service)) =
     buffer (eventSubject example_service) @ [PAUSED]"
      by (rule t2 [THEN conjunct2, THEN mp, THEN conjunct2, THEN conjunct1]) (rule conjI h d p2)+
    then show ?thesis by (simp add: example_service_simps)
  qed
  from h d m c1 c2 show ?thesis by (intro conjI)
qed

subsection \<open>Job status\<close>

lemma extractJobStatus_published:
  "buffer (jobStatusSubject (extractJobStatus env now m s)) =
     buffer (jobStatusSubject s) @ [jobStatus (extractJobStatus env now m s)]"
  by (simp add: extractJobStatus_def Let_def subject_next_def)

lemma extractJobStatus_always:
  "file_j (jobStatus (extractJobStatus env now m s)) = file_of m"
  "fullPath (jobStatus (extractJobStatus env now m s)) =
     Val (''/'' @ to_string (chain (job_file m) origin) @ ''/'' @ to_string (chain (job_file m) path))"
  "progress (jobStatus (extractJobStatus env now m s)) = Math_round (progress_completion m)"
  "timePrinted (jobStatus (extractJobStatus env now m s)) =
     Val \<lparr>value_d = convertSecondsToHours env (progress_printTime m), unit_d = Val ''h''\<rparr>"
  by (simp_all add: extractJobStatus_def Let_def split: js.splits)

lemma extractJobStatus_filamentAmount:
  "filamentAmount (jobStatus (extractJobStatus env now m s)) =
     (case job_filament m of
        Val f \<Rightarrow> getTotalFilamentWeight env f
      | _ \<Rightarrow> filamentAmount (start_record env m s))"
  by (simp add: extractJobStatus_def Let_def start_record_def split: js.splits)

lemma extractJobStatus_timeLeft:
  "timeLeft (jobStatus (extractJobStatus env now m s)) =
     (case progress_printTimeLeft m of
        Val r \<Rightarrow> if r \<noteq> 0 then \<lparr>value_d = convertSecondsToHours env (Val r), unit_d = Val ''h''\<rparr>
                 else timeLeft (start_record env m s)
      | _ \<Rightarrow> timeLeft (start_record env m s))"
  by (simp add: extractJobStatus_def Let_def start_record_def split: js.splits)

lemma extractJobStatus_estimatedEndTime:
  "estimatedEndTime (jobStatus (extractJobStatus env now m s)) =
     (case progress_printTimeLeft m of
        Val r \<Rightarrow> if r \<noteq> 0 then Val (calculateEndTime now r)
                 else estimatedEndTime (start_record env m s)
      | _ \<Rightarrow> estimatedEndTime (start_record env m s))"
  by (simp add: extractJobStatus_def Let_def start_record_def split: js.splits)

lemma extractJobStatus_estimatedPrintTime:
  "estimatedPrintTime (jobStatus (extractJobStatus env now m s)) =
     (if truthy_num (job_estimatedPrintTime m)
      then Val \<lparr>value_d = convertSecondsToHours env (job_estimatedPrintTime m), unit_d = Val ''h''\<rparr>
      else estimatedPrintTime (start_record env m s))"
  by (simp add: extractJobStatus_def Let_def start_record_def split: js.splits)

lemma extractJobStatus_zHeight:
  "zHeight (jobStatus (extractJobStatus env now m s)) =
     (case currentZ m of
        Val z \<Rightarrow> if \<not> isDisplayLayerProgressEnabled env \<and> z \<noteq> 0 then ZNumber z
                 else zHeight (start_record env m s)
      | _ \<Rightarrow> zHeight (start_record env m s))"
  by (simp add: extractJobStatus_def Let_def start_record_def split: js.splits)

lemmas extractJobStatus_fields =
  extractJobStatus_always extractJobStatus_filamentAmount extractJobStatus_timeLeft
  extractJobStatus_estimatedEndTime extractJobStatus_estimatedPrintTime extractJobStatus_zHeight

lemma file_of_not_Null: "file_of m \<noteq> Null"
proof (cases "job_file m")
  case (Val f)
  then show ?thesis by (cases "display f") (simp_all add: file_of_def)
qed (simp_all add: file_of_def)

lemma start_record_same: "file_j (jobStatus s) = file_of m \<Longrightarrow> start_record env m s = jobStatus s"
  by (simp add: start_record_def)



lemma extractJobStatus_start_record:
  assumes "start_record env m s = start_record env m t"
  shows "jobStatus (extractJobStatus env now m s) = jobStatus (extractJobStatus env now m t)"
  by (rule JobStatus.equality) (simp_all add: extractJobStatus_fields assms split: js.splits)


lemma frame_jobStatus:
  "jobStatus (extractJobStatus env now c (extractPrinterStatus env c s)) =
   jobStatus (extractJobStatus env now c s)"
  by (rule extractJobStatus_start_record) (simp add: start_record_def extractPrinterStatus_frame)

lemma on_current_printerStatus:
  "printerStatus (on_message env now (current_message c) s) =
   printerStatus (extractPrinterStatus env c s)"
  by (simp add: on_current extractJobStatus_frame)

lemma on_current_jobStatus:
  "jobStatus (on_message env now (current_message c) s) = jobStatus (extractJobStatus env now c s)"
  by (simp add: on_current frame_jobStatus)

lemma on_current_published:
  "buffer (printerStatusSubject (on_message env now (current_message c) s)) =
     buffer (printerStatusSubject s) @ [printerStatus (on_message env now (current_message c) s)]"
  "buffer (jobStatusSubject (on_message env now (current_message c) s)) =
     buffer (jobStatusSubject s) @ [jobStatus (on_message env now (current_message c) s)]"
  by (simp_all add: on_current extractJobStatus_frame extractPrinterStatus_status
        extractJobStatus_published extractPrinterStatus_frame)





text \<open>
  Counterexample to claim C6 as stated. A frame for the file \<^verbatim>\<open>A\<close> with filament
  data of length 1000 is handled, then a frame for the file \<^verbatim>\<open>B\<close> without filament
  data: the filament amount published for the second frame is 0, not the 1000 the
  service held.
\<close>

theorem absent_field_reset_counterexample:
  "job_filament (example_frame ''Printing'' ''B.gcode'' Undefined) = Undefined \<and>
   map filamentAmount (buffer (jobStatusSubject (run example_env
     [Socket_message 0 (current_message
        ((example_frame ''Printing'' ''A.gcode'' Undefined)\<lparr>job_filament := Val [\<lparr>length_f = 1000\<rparr>]\<rparr>)),
      Socket_message 1 (current_message (example_frame ''Printing'' ''B.gcode'' Undefined))]
     example_service))) = [1000, 0]"
proof -
  let ?fA = "(example_frame ''Printing'' ''A.gcode'' Undefined)\<lparr>job_filament := Val [\<lparr>length_f = 1000\<rparr>]\<rparr>"
  let ?fB = "example_frame ''Printing'' ''B.gcode'' Undefined"
  let ?s1 = "on_message example_env 0 (current_message ?fA) example_service"
  have fA: "file_of ?fA = Val ''A''" by (simp add: file_of_def example_frame_def)
  have fB: "file_of ?fB = Val ''B''" by (simp add: file_of_def example_frame_def)
  have nB: "job_filament ?fB = Undefined" by (simp add: example_frame_def)
  have nA: "job_filament ?fA = Val [\<lparr>length_f = 1000\<rparr>]" by simp
  have a: "filamentAmount (jobStatus (extractJobStatus example_env 0 ?fA example_service)) = 1000"
    by (simp only: extractJobStatus_filamentAmount nA)
       (simp add: getTotalFilamentWeight_def example_env_def)
  have "file_j (jobStatus ?s1) = Val ''A''"
    by (simp only: on_current_jobStatus extractJobStatus_always fA)
  then have "start_record example_env ?fB ?s1 = initJobStatus example_env"
    by (simp add: start_record_def fB)
  then have b: "filamentAmount (jobStatus (extractJobStatus example_env 1 ?fB ?s1)) = 0"
    by (simp only: extractJobStatus_filamentAmount nB) (simp add: initJobStatus_def)
  have "buffer (jobStatusSubject (run example_env
     [Socket_message 0 (current_message ?fA), Socket_message 1 (current_message ?fB)] example_service)) =
     [jobStatus (extractJobStatus example_env 0 ?fA example_service),
      jobStatus (extractJobStatus example_env 1 ?fB ?s1)]"
    by (simp add: on_message_frame example_service_simps on_current_published on_current_jobStatus)
  with a b nB show ?thesis by simp
qed

text \<open>
  Claim C6, amended. When the frame names the file that is tracked, each optional
  field that is absent (or zero) in the frame leaves the corresponding field of the job
  status as it was: the filament data the filament amount, the remaining print time
  the remaining time and the estimated end time, the estimated print time the estimated
  print time, and the height the height; with layer-progress tracking enabled the
  height is left as it was in any case.
\<close>

theorem absent_fields_unchanged_same_file:
  "file_j (jobStatus s) = file_of m \<Longrightarrow>
   (\<not> truthy_obj (job_filament m) \<longrightarrow>
      filamentAmount (jobStatus (extractJobStatus env now m s)) = filamentAmount (jobStatus s)) \<and>
   (\<not> truthy_num (progress_printTimeLeft m) \<longrightarrow>
      timeLeft (jobStatus (extractJobStatus env now m s)) = timeLeft (jobStatus s) \<and>
      estimatedEndTime (jobStatus (extractJobStatus env now m s)) = estimatedEndTime (jobStatus s)) \<and>
   (\<not> truthy_num (job_estimatedPrintTime m) \<longrightarrow>
      estimatedPrintTime (jobStatus (extractJobStatus env now m s)) = estimatedPrintTime (jobStatus s)) \<and>
   (isDisplayLayerProgressEnabled env \<or> \<not> truthy_num (currentZ m) \<longrightarrow>
      zHeight (jobStatus (extractJobStatus env now m s)) = zHeight (jobStatus s))"
proof -
  assume "file_j (jobStatus s) = file_of m"
  then have st: "start_record env m s = jobStatus s"
    by (rule start_record_same)
  have 1: "\<not> truthy_obj (job_filament m) \<Longrightarrow>
      filamentAmount (jobStatus (extractJobStatus env now m s)) = filamentAmount (jobStatus s)"
    by (cases "job_filament m") (simp_all add: extractJobStatus_filamentAmount st)
  have 2: "\<not> truthy_num (progress_printTimeLeft m) \<Longrightarrow>
      timeLeft (jobStatus (extractJobStatus env now m s)) = timeLeft (jobStatus s) \<and>
      estimatedEndTime (jobStatus (extractJobStatus env now m s)) = estimatedEndTime (jobStatus s)"
    by (cases "progress_printTimeLeft m")
       (simp_all add: extractJobStatus_timeLeft extractJobStatus_estimatedEndTime st)
  have 3: "\<not> truthy_num (job_estimatedPrintTime m) \<Longrightarrow>
      estimatedPrintTime (jobStatus (extractJobStatus env now m s)) = estimatedPrintTime (jobStatus s)"
    by (simp add: extractJobStatus_estimatedPrintTime st)
  have 4: "isDisplayLayerProgressEnabled env \<or> \<not> truthy_num (currentZ m) \<Longrightarrow>
      zHeight (jobStatus (extractJobStatus env now m s)) = zHeight (jobStatus s)"
    by (cases "currentZ m") (auto simp add: extractJobStatus_zHeight st)
  from 1 2 3 4 show ?thesis by blast
qed

theorem absent_fields_unchanged_same_file_witness:
  "file_j (jobStatus (on_message example_env 0
      (current_message ((example_frame ''Printing'' ''A.gcode'' Undefined)
         \<lparr>job_filament := Val [\<lparr>length_f = 1000\<rparr>]\<rparr>)) example_service)) =
     file_of (example_frame ''Printing'' ''A.gcode'' Undefined) \<and>
   \<not> truthy_obj (job_filament (example_frame ''Printing'' ''A.gcode'' Undefined)) \<and>
   \<not> truthy_num (progress_printTimeLeft (example_frame ''Printing'' ''A.gcode'' Undefined)) \<and>
   \<not> truthy_num (job_estimatedPrintTime (example_frame ''Printing'' ''A.gcode'' Undefined)) \<and>
   \<not> truthy_num (currentZ (example_frame ''Printing'' ''A.gcode'' Undefined)) \<and>
   filamentAmount (jobStatus (extractJobStatus example_env 1
       (example_frame ''Printing'' ''A.gcode'' Undefined)
       (on_message example_env 0
          (current_message ((example_frame ''Printing'' ''A.gcode'' Undefined)
             \<lparr>job_filament := Val [\<lparr>length_f = 1000\<rparr>]\<rparr>)) example_service))) =
   filamentAmount (jobStatus (on_message example_env 0
          (current_message ((example_frame ''Printing'' ''A.gcode'' Undefined)
             \<lparr>job_filament := Val [\<lparr>length_f = 1000\<rparr>]\<rparr>)) example_service))"
proof -
  let ?fA = "(example_frame ''Printing'' ''A.gcode'' Undefined)\<lparr>job_filament := Val [\<lparr>length_f = 1000\<rparr>]\<rparr>"
  let ?s = "on_message example_env 0 (current_message ?fA) example_service"
  have "file_of ?fA = file_of (example_frame ''Printing'' ''A.gcode'' Undefined)"
    by (simp add: file_of_def example_frame_def)
  then have h: "file_j (jobStatus ?s) = file_of (example_frame ''Printing'' ''A.gcode'' Undefined)"
    by (simp only: on_current_jobStatus extractJobStatus_always)
  have a: "\<not> truthy_obj (job_filament (example_frame ''Printing'' ''A.gcode'' Undefined))"
    "\<not> truthy_num (progress_printTimeLeft (example_frame ''Printing'' ''A.gcode'' Undefined))"
    "\<not> truthy_num (job_estimatedPrintTime (example_frame ''Printing'' ''A.gcode'' Undefined))"
    "\<not> truthy_num (currentZ (example_frame ''Printing'' ''A.gcode'' Undefined))"
    by (simp_all add: example_frame_def)
  from absent_fields_unchanged_same_file [OF h, of example_env 1] h a show ?thesis by simp
qed

subsection \<open>The same frame twice\<close>

lemma extractPrinterStatus_idem:
  "printerStatus t = printerStatus (extractPrinterStatus env c s) \<Longrightarrow>
   printerStatus (extractPrinterStatus env c t) = printerStatus t"
  by (simp add: extractPrinterStatus_def Let_def extractPrinterEvent_frame split: list.splits)

lemma extractJobStatus_idem:
  assumes "jobStatus t = jobStatus (extractJobStatus env now1 c s)"
  shows "jobStatus (extractJobStatus env now2 c t) =
     (jobStatus t)\<lparr>estimatedEndTime := estimatedEndTime (jobStatus (extractJobStatus env now2 c t))\<rparr>"
proof -
  have "file_j (jobStatus t) = file_of c"
    by (simp add: assms extractJobStatus_always)
  then have st: "start_record env c t = jobStatus (extractJobStatus env now1 c s)"
    by (simp add: start_record_same assms)
  show ?thesis
  proof (rule JobStatus.equality)
    show "filamentAmount (jobStatus (extractJobStatus env now2 c t)) =
      filamentAmount ((jobStatus t)\<lparr>estimatedEndTime := estimatedEndTime (jobStatus (extractJobStatus env now2 c t))\<rparr>)"
      by (cases "job_filament c") (simp_all add: extractJobStatus_filamentAmount st assms)
    show "timeLeft (jobStatus (extractJobStatus env now2 c t)) =
      timeLeft ((jobStatus t)\<lparr>estimatedEndTime := estimatedEndTime (jobStatus (extractJobStatus env now2 c t))\<rparr>)"
      by (cases "progress_printTimeLeft c") (simp_all add: extractJobStatus_timeLeft st assms)
    show "estimatedPrintTime (jobStatus (extractJobStatus env now2 c t)) =
      estimatedPrintTime ((jobStatus t)\<lparr>estimatedEndTime := estimatedEndTime (jobStatus (extractJobStatus env now2 c t))\<rparr>)"
      by (simp add: extractJobStatus_estimatedPrintTime st assms)
    show "zHeight (jobStatus (extractJobStatus env now2 c t)) =
      zHeight ((jobStatus t)\<lparr>estimatedEndTime := estimatedEndTime (jobStatus (extractJobStatus env now2 c t))\<rparr>)"
      by (cases "currentZ c") (simp_all add: extractJobStatus_zHeight st assms)
  qed (simp_all add: extractJobStatus_always assms)
qed

lemma extractJobStatus_idem_endTime:
  assumes "jobStatus t = jobStatus (extractJobStatus env now1 c s)"
    and "\<And>r. progress_printTimeLeft c = Val r \<Longrightarrow> r \<noteq> 0 \<Longrightarrow>
           calculateEndTime now2 r = calculateEndTime now1 r"
  shows "estimatedEndTime (jobStatus (extractJobStatus env now2 c t)) = estimatedEndTime (jobStatus t)"
proof -
  have "file_j (jobStatus t) = file_of c"
    by (simp add: assms(1) extractJobStatus_always)
  then have st: "start_record env c t = jobStatus (extractJobStatus env now1 c s)"
    by (simp add: start_record_same assms(1))
  show ?thesis
    using assms(2)
    by (cases "progress_printTimeLeft c") (simp_all add: extractJobStatus_estimatedEndTime st assms(1))
qed

text \<open>
  Counterexample to claim C7 as stated. The same frame, with 60 seconds of print time
  left, is handled at 10:00:30 and again at 10:01:30: the two published job status
  records differ in the estimated end time.
\<close>

theorem end_time_counterexample:
  "map estimatedEndTime (buffer (jobStatusSubject (run example_env
     [Socket_message 36030 (current_message (example_frame ''Printing'' ''A.gcode'' (Val 60))),
      Socket_message 36090 (current_message (example_frame ''Printing'' ''A.gcode'' (Val 60)))]
     example_service))) = [Val ''10:01'', Val ''10:02'']"
proof -
  let ?f = "example_frame ''Printing'' ''A.gcode'' (Val 60)"
  let ?s1 = "on_message example_env 36030 (current_message ?f) example_service"
  have l: "progress_printTimeLeft ?f = Val 60" by (simp add: example_frame_def)
  have a: "estimatedEndTime (jobStatus (extractJobStatus example_env 36030 ?f example_service)) =
        Val ''10:01''"
    by (simp only: extractJobStatus_estimatedEndTime l)
       (simp add: calculateEndTime_def setSeconds_def getSeconds_def truncate_def getHours_def getMinutes_def show_nat.simps
          slice_last2_def)
  have b: "estimatedEndTime (jobStatus (extractJobStatus example_env 36090 ?f ?s1)) = Val ''10:02''"
    by (simp only: extractJobStatus_estimatedEndTime l)
       (simp add: calculateEndTime_def setSeconds_def getSeconds_def truncate_def getHours_def getMinutes_def show_nat.simps
          slice_last2_def)
  have "buffer (jobStatusSubject (run example_env
     [Socket_message 36030 (current_message ?f), Socket_message 36090 (current_message ?f)]
     example_service)) =
     [jobStatus (extractJobStatus example_env 36030 ?f example_service),
      jobStatus (extractJobStatus example_env 36090 ?f ?s1)]"
    by (simp add: on_message_frame example_service_simps on_current_published on_current_jobStatus)
  with a b show ?thesis by simp
qed

text \<open>
  Claim C7, amended. Handling the same \<^verbatim>\<open>current\<close> frame twice in succession
  publishes two printer status records that are equal, and two job status records that
  are equal in every field except possibly the estimated end time, which is computed
  from the clock at the time each frame is handled. The two job status records are
  equal in that field too when the frame has no remaining print time or the end time
  computed at the two times is the same.
\<close>

theorem same_frame_twice:
  "printerStatus (on_message env now2 (current_message c) (on_message env now1 (current_message c) s)) =
     printerStatus (on_message env now1 (current_message c) s) \<and>
   jobStatus (on_message env now2 (current_message c) (on_message env now1 (current_message c) s)) =
     (jobStatus (on_message env now1 (current_message c) s))
       \<lparr>estimatedEndTime := estimatedEndTime (jobStatus
          (on_message env now2 (current_message c) (on_message env now1 (current_message c) s)))\<rparr> \<and>
   ((\<forall>r. progress_printTimeLeft c = Val r \<and> r \<noteq> 0 \<longrightarrow>
          calculateEndTime now2 r = calculateEndTime now1 r) \<longrightarrow>
      jobStatus (on_message env now2 (current_message c) (on_message env now1 (current_message c) s)) =
        jobStatus (on_message env now1 (current_message c) s)) \<and>
   buffer (printerStatusSubject
       (on_message env now2 (current_message c) (on_message env now1 (current_message c) s))) =
     buffer (printerStatusSubject s) @
       [printerStatus (on_message env now1 (current_message c) s),
        printerStatus (on_message env now2 (current_message c) (on_message env now1 (current_message c) s))] \<and>
   buffer (jobStatusSubject
       (on_message env now2 (current_message c) (on_message env now1 (current_message c) s))) =
     buffer (jobStatusSubject s) @
       [jobStatus (on_message env now1 (current_message c) s),
        jobStatus (on_message env now2 (current_message c) (on_message env now1 (current_message c) s))]"
proof -
  let ?F1 = "on_message env now1 (current_message c) s"
  let ?F2 = "on_message env now2 (current_message c) ?F1"
  have p1: "printerStatus ?F1 = printerStatus (extractPrinterStatus env c s)"
    by (rule on_current_printerStatus)
  have p: "printerStatus ?F2 = printerStatus ?F1"
    using extractPrinterStatus_idem [OF p1] by (simp add: on_current_printerStatus)
  have j1: "jobStatus ?F1 = jobStatus (extractJobStatus env now1 c s)"
    by (rule on_current_jobStatus)
  have j: "jobStatus ?F2 = (jobStatus ?F1)\<lparr>estimatedEndTime := estimatedEndTime (jobStatus ?F2)\<rparr>"
    using extractJobStatus_idem [OF j1, where ?now2.0 = now2]
    by (simp only: on_current_jobStatus [where s = ?F1])
  have e: "jobStatus ?F2 = jobStatus ?F1"
    if "\<forall>r. progress_printTimeLeft c = Val r \<and> r \<noteq> 0 \<longrightarrow>
          calculateEndTime now2 r = calculateEndTime now1 r"
  proof -
    have "estimatedEndTime (jobStatus (extractJobStatus env now2 c ?F1)) =
          estimatedEndTime (jobStatus ?F1)"
      using that by (intro extractJobStatus_idem_endTime [OF j1]) simp
    then have "estimatedEndTime (jobStatus ?F2) = estimatedEndTime (jobStatus ?F1)"
      by (simp only: on_current_jobStatus [where s = ?F1])
    with j show ?thesis by simp
  qed
  have b1: "buffer (printerStatusSubject ?F2) =
     buffer (printerStatusSubject s) @ [printerStatus ?F1, printerStatus ?F2]"
    by (simp add: on_current_published(1) [where s = ?F1] on_current_published(1) [where s = s])
  have b2: "buffer (jobStatusSubject ?F2) =
     buffer (jobStatusSubject s) @ [jobStatus ?F1, jobStatus ?F2]"
    by (simp add: on_current_published(2) [where s = ?F1] on_current_published(2) [where s = s])
  from p j e b1 b2 show ?thesis by (intro conjI impI)
qed

theorem same_frame_twice_witness:
  "progress_printTimeLeft (example_frame ''Printing'' ''A.gcode'' (Val 60)) = Val 60 \<and>
   calculateEndTime 36040 60 = calculateEndTime 36030 60 \<and>
   jobStatus (on_message example_env 36040 (current_message (example_frame ''Printing'' ''A.gcode'' (Val 60)))
     (on_message example_env 36030 (current_message (example_frame ''Printing'' ''A.gcode'' (Val 60)))
        example_service)) =
   jobStatus (on_message example_env 36030 (current_message (example_frame ''Printing'' ''A.gcode'' (Val 60)))
        example_service)"
proof -
  have l: "progress_printTimeLeft (example_frame ''Printing'' ''A.gcode'' (Val 60)) = Val 60"
    by (simp add: example_frame_def)
  have c: "calculateEndTime 36040 60 = calculateEndTime 36030 60"
    by (simp add: calculateEndTime_def setSeconds_def getSeconds_def truncate_def getHours_def getMinutes_def)
  then have h: "\<forall>r. progress_printTimeLeft (example_frame ''Printing'' ''A.gcode'' (Val 60)) = Val r \<and> r \<noteq> 0 \<longrightarrow>
        calculateEndTime 36040 r = calculateEndTime 36030 r"
    by (simp add: example_frame_def)
  from same_frame_twice [of example_env 36040 "example_frame ''Printing'' ''A.gcode'' (Val 60)" 36030
      example_service] h l c
  show ?thesis by simp
qed

end
